theory Spec2Isabelle
  imports Complex_Main "HOL-Library.Sublist"
begin

section \<open>Data model\<close>

text \<open>
  The platform is a Django project. Each model class is a record; every row carries its
  primary key, and an instance that was never saved has no key (\<open>None\<close>), which is what
  the source tests with \<open>not self.pk\<close>. The choice lists \<open>ROLE_CHOICES\<close> and
  \<open>STATUS_CHOICES\<close> are datatypes. Tables are lists of rows.
\<close>

datatype role = ADMIN | REGISTRAR | ACADEMIC | FINANCE | STUDENT | TUTOR

datatype status = IN_PROGRESS | COMPLETED | CANCELLED

text \<open>A calendar date, compared field by field as \<open>datetime.date\<close> does.\<close>

datatype date = Date (year: nat) (month: nat) (day: nat)

definition date_less :: "date \<Rightarrow> date \<Rightarrow> bool" where
  "date_less a b \<longleftrightarrow>
     year a < year b \<or>
     (year a = year b \<and> (month a < month b \<or> (month a = month b \<and> day a < day b)))"

text \<open>
  What a \<open>DateField\<close> attribute holds in memory. A row loaded from storage holds a
  \<open>datetime.date\<close>. An instance created without a value for the field holds what the
  field default returned, and for \<open>default=timezone.now\<close> that is a \<open>datetime.datetime\<close>:
  the save converts it for the column (\<open>DateField.to_python\<close>) and leaves the attribute
  as it is. \<open>DateTimeValue d\<close> is a datetime whose calendar date, the one that is
  stored, is \<open>d\<close>.
\<close>

datatype date_value = DateValue date | DateTimeValue date

definition to_python :: "date_value \<Rightarrow> date_value" where
  "to_python v = (case v of DateValue d \<Rightarrow> DateValue d | DateTimeValue d \<Rightarrow> DateValue d)"

text \<open>
  Exceptions are values. A \<open>ValidationError\<close> carries the field key of the source's error
  dictionary (empty for a plain message) and the message.
\<close>

datatype error =
    ValidationError string string
  | IntegrityError
  | DoesNotExist
  | MultipleObjectsReturned
  | KeyError string
  | ValueError
  | TypeError
  | InvalidOperation
  | DatabaseError

text \<open>
  \<open>a < b\<close> for a date \<open>a\<close> and the value of a date attribute: the language refuses to
  compare a date with a datetime and raises \<open>TypeError\<close>.
\<close>

definition date_lt :: "date \<Rightarrow> date_value \<Rightarrow> error + bool" where
  "date_lt a b =
     (case b of
        DateValue d \<Rightarrow> Inr (date_less a d)
      | DateTimeValue d \<Rightarrow> Inl TypeError)"

subsection \<open>accounts: User and the \<open>post_save\<close> receiver \<open>set_staff_status\<close>\<close>

text \<open>
  Of a user the model keeps the key, the two columns declared \<open>unique=True\<close>, the role and
  the flag \<open>is_staff\<close>.
\<close>

record user =
  user_pk :: "nat option"
  username :: string
  email :: string
  user_role :: role
  is_staff :: bool

definition staff_roles :: "role list" where
  "staff_roles = [ADMIN, REGISTRAR, ACADEMIC, FINANCE]"

definition is_staff_member :: "user \<Rightarrow> bool" where
  "is_staff_member u \<longleftrightarrow> user_role u \<in> set staff_roles"

text \<open>The next free primary key of a table, given the keys in use.\<close>

definition fresh_pk :: "nat option list \<Rightarrow> nat" where
  "fresh_pk ks = Suc (fold max (map (\<lambda>k. case k of None \<Rightarrow> 0 | Some n \<Rightarrow> n) ks) 0)"

text \<open>
  The columns a save can be restricted to with \<open>save(update_fields=[...])\<close>; \<open>OtherField\<close>
  stands for every column the record leaves out (\<open>last_login\<close>, \<open>first_name\<close>, ...).
  A save without \<open>update_fields\<close> writes every column.
\<close>

datatype user_field = UsernameField | EmailField | RoleField | IsStaffField | OtherField


text \<open>The row \<open>r\<close> after an \<open>UPDATE\<close> of the columns \<open>fs\<close> with the values of the instance \<open>u\<close>.\<close>

definition write_fields :: "user_field list \<Rightarrow> user \<Rightarrow> user \<Rightarrow> user" where
  "write_fields fs u r =
     r\<lparr>username := (if UsernameField \<in> set fs then username u else username r),
       email := (if EmailField \<in> set fs then email u else email r),
       user_role := (if RoleField \<in> set fs then user_role u else user_role r),
       is_staff := (if IsStaffField \<in> set fs then is_staff u else is_staff r)\<rparr>"

text \<open>
  The write of the framework's \<open>Model.save\<close> on the user table. Without \<open>update_fields\<close>
  an instance without a key is inserted under a fresh key, and an instance with a key
  overwrites the row of that key or is inserted when there is none. With \<open>update_fields\<close>
  the save is an \<open>UPDATE\<close> of those columns: an instance without a key raises \<open>ValueError\<close>
  ("Cannot force an update in save() with no primary key."), and an update that finds no
  row raises \<open>DatabaseError\<close> ("Save with update_fields did not affect any rows."). A
  write that would give two rows the same \<open>username\<close> or \<open>email\<close> raises
  \<open>IntegrityError\<close>. The instance keeps its field values and receives the key.
\<close>

definition user_store ::
  "user_field list option \<Rightarrow> user list \<Rightarrow> user \<Rightarrow> error + user list \<times> user" where
  "user_store update_fields tbl u =
     (case update_fields of
        None \<Rightarrow>
          if \<exists>r \<in> set tbl. user_pk r \<noteq> user_pk u \<and> (username r = username u \<or> email r = email u)
          then Inl IntegrityError
          else (case user_pk u of
                  None \<Rightarrow>
                    (let u' = u\<lparr>user_pk := Some (fresh_pk (map user_pk tbl))\<rparr>
                     in Inr (tbl @ [u'], u'))
                | Some k \<Rightarrow>
                    if Some k \<in> set (map user_pk tbl)
                    then Inr (map (\<lambda>r. if user_pk r = Some k then u else r) tbl, u)
                    else Inr (tbl @ [u], u))
      | Some fs \<Rightarrow>
          (case user_pk u of
             None \<Rightarrow> Inl ValueError
           | Some k \<Rightarrow>
               if Some k \<notin> set (map user_pk tbl) then Inl DatabaseError
               else if \<exists>r \<in> set tbl. user_pk r \<noteq> Some k \<and>
                         ((UsernameField \<in> set fs \<and> username r = username u) \<or>
                          (EmailField \<in> set fs \<and> email r = email u))
               then Inl IntegrityError
               else Inr (map (\<lambda>r. if user_pk r = Some k then write_fields fs u r else r) tbl, u)))"

text \<open>
  \<open>set_staff_status\<close>: the receiver compares the instance's flag with the flag its role
  calls for and, when they differ, updates the stored rows of that key
  (\<open>User.objects.filter(pk=instance.pk).update(...)\<close>). The instance itself is not
  touched.
\<close>

definition set_staff_status :: "user list \<Rightarrow> user \<Rightarrow> user list" where
  "set_staff_status tbl instance =
     (let should_be_staff = (user_role instance \<in> set staff_roles) in
      if is_staff instance \<noteq> should_be_staff
      then map (\<lambda>r. if user_pk r = user_pk instance then r\<lparr>is_staff := should_be_staff\<rparr> else r) tbl
      else tbl)"

text \<open>
  A save of a user. An empty \<open>update_fields\<close> returns at once: nothing is written and no
  signal is sent. Otherwise the row is written and \<open>post_save\<close> is sent, to the receivers
  that are connected. The decorator \<open>@receiver(post_save, sender=User)\<close> connects
  \<open>set_staff_status\<close> when the module \<open>accounts.signals\<close> is imported; the sources hold no
  application configuration or package initialiser of \<open>accounts\<close> (the place of that
  import), so whether it is imported is the parameter \<open>signals_imported\<close>. The other
  receiver of the module, \<open>add_user_to_group\<close>, changes group memberships only, which the
  model does not hold.
\<close>

definition user_save ::
  "bool \<Rightarrow> user_field list option \<Rightarrow> user list \<Rightarrow> user \<Rightarrow> (error + user) \<times> user list" where
  "user_save signals_imported update_fields tbl u =
     (if update_fields = Some [] then (Inr u, tbl)
      else (case user_store update_fields tbl u of
              Inl e \<Rightarrow> (Inl e, tbl)
            | Inr (tbl', u') \<Rightarrow>
                (Inr u', if signals_imported then set_staff_status tbl' u' else tbl')))"


subsection \<open>Formatting of numbers\<close>

text \<open>
  The decimal digits of a natural number, as \<open>str\<close> and the format specifications
  \<open>{n}\<close>, \<open>{n:02d}\<close>, \<open>{n:05d}\<close> and \<open>{n:06d}\<close> of the source produce them: \<open>zfill w\<close>
  pads with zeros on the left up to width \<open>w\<close> and never truncates.
\<close>

definition digit_char :: "nat \<Rightarrow> char" where
  "digit_char d = ''0123456789'' ! d"

fun dec_str :: "nat \<Rightarrow> string" where
  "dec_str n = (if n < 10 then [digit_char n] else dec_str (n div 10) @ [digit_char (n mod 10)])"

declare dec_str.simps [simp del]

definition zfill :: "nat \<Rightarrow> string \<Rightarrow> string" where
  "zfill w s = replicate (w - length s) (CHR ''0'') @ s"

subsection \<open>courses: Course and its prerequisite relation\<close>

text \<open>
  Prices and amounts are \<open>DecimalField(max_digits=10, decimal_places=2)\<close>: fixed-point
  numbers with two fraction digits, held here as an integer number of hundredths.
  The many-to-many field \<open>prerequisites\<close> is its own table of pairs
  \<open>(from_course, to_course)\<close>: the first course requires the second.
\<close>

record course =
  course_id :: nat
  title :: string
  price :: int

subsection \<open>enrollments: Enrollment\<close>

record enrollment =
  enr_pk :: "nat option"
  student :: nat
  course :: nat
  enrollment_date :: date_value
  completion_date :: "date option"
  status :: status
  verified_by :: "nat option"

subsection \<open>payments: Payment\<close>

record payment =
  pay_pk :: "nat option"
  pay_enrollment :: "nat option"
  amount :: int
  payment_date :: date
  receipt_number :: "string option"

subsection \<open>certifications: Certificate\<close>

record certificate =
  cert_pk :: "nat option"
  cert_enrollment :: nat
  certificate_number :: string
  verification_code :: string
  issue_date :: date
  is_public :: bool
  certificate_file :: "string option"

subsection \<open>The database\<close>

record database =
  users :: "user list"
  courses :: "course list"
  course_prerequisites :: "(nat \<times> nat) list"
  enrollments :: "enrollment list"
  payments :: "payment list"
  certificates :: "certificate list"

definition get_user :: "user list \<Rightarrow> nat \<Rightarrow> user option" where
  "get_user tbl k = find (\<lambda>r. user_pk r = Some k) tbl"

definition get_course :: "course list \<Rightarrow> nat \<Rightarrow> course option" where
  "get_course tbl k = find (\<lambda>r. course_id r = k) tbl"

definition get_enrollment :: "enrollment list \<Rightarrow> nat \<Rightarrow> enrollment option" where
  "get_enrollment tbl k = find (\<lambda>r. enr_pk r = Some k) tbl"

subsection \<open>Enrollment: \<open>clean\<close>, \<open>save\<close>, \<open>mark_completed\<close>\<close>

text \<open>
  \<open>Enrollment.clean\<close>. Following the foreign key \<open>self.student\<close> to a row that is not
  there raises \<open>DoesNotExist\<close>. The duplicate check runs for new instances only and leaves
  cancelled rows out. The last check compares the completion date, when there is one,
  with whatever the attribute \<open>enrollment_date\<close> holds.
\<close>

definition enrollment_clean :: "database \<Rightarrow> enrollment \<Rightarrow> error + unit" where
  "enrollment_clean db self =
     (case get_user (users db) (student self) of
        None \<Rightarrow> Inl DoesNotExist
      | Some s \<Rightarrow>
          if user_role s \<noteq> STUDENT
          then Inl (ValidationError ''student'' ''Only users with STUDENT role can be enrolled.'')
          else if enr_pk self = None \<and>
                  (\<exists>r \<in> set (enrollments db).
                      student r = student self \<and> course r = course self \<and> status r \<noteq> CANCELLED)
          then Inl (ValidationError ''course'' ''Student is already enrolled in this course.'')
          else if status self = COMPLETED \<and> completion_date self = None
          then Inl (ValidationError ''completion_date''
                      ''Completion date is required for completed enrollments.'')
          else (case completion_date self of
                  None \<Rightarrow> Inr ()
                | Some d \<Rightarrow>
                    (case date_lt d (enrollment_date self) of
                       Inl e \<Rightarrow> Inl e
                     | Inr before \<Rightarrow>
                         if before
                         then Inl (ValidationError ''completion_date''
                                     ''Completion date cannot be before enrollment date.'')
                         else Inr ())))"

text \<open>
  The row written for an instance: the column \<open>enrollment_date\<close> receives the date of
  the attribute.
\<close>

definition enrollment_row :: "enrollment \<Rightarrow> enrollment" where
  "enrollment_row self = self\<lparr>enrollment_date := to_python (enrollment_date self)\<rparr>"

text \<open>
  The write of the framework's \<open>Model.save\<close> on the enrollment table. \<open>Meta\<close> declares
  \<open>unique_together = ['student', 'course']\<close>: the store refuses a row whose pair another
  row already has, whatever the status of either, with \<open>IntegrityError\<close>. The instance
  receives the key and keeps its attributes.
\<close>

definition enrollment_store ::
  "enrollment list \<Rightarrow> enrollment \<Rightarrow> error + enrollment list \<times> enrollment" where
  "enrollment_store tbl self =
     (if \<exists>r \<in> set tbl. enr_pk r \<noteq> enr_pk self \<and> student r = student self \<and> course r = course self
      then Inl IntegrityError
      else (case enr_pk self of
              None \<Rightarrow>
                (let self' = self\<lparr>enr_pk := Some (fresh_pk (map enr_pk tbl))\<rparr>
                 in Inr (tbl @ [enrollment_row self'], self'))
            | Some k \<Rightarrow>
                if Some k \<in> set (map enr_pk tbl)
                then Inr (map (\<lambda>r. if enr_pk r = Some k then enrollment_row self else r) tbl, self)
                else Inr (tbl @ [enrollment_row self], self)))"

text \<open>
  \<open>Enrollment.save\<close>: \<open>clean\<close>, then the write. The result pairs the outcome (the saved
  instance, or the exception) with the database afterwards.
\<close>

definition enrollment_save ::
  "database \<Rightarrow> enrollment \<Rightarrow> (error + enrollment) \<times> database" where
  "enrollment_save db self =
     (case enrollment_clean db self of
        Inl e \<Rightarrow> (Inl e, db)
      | Inr _ \<Rightarrow>
          (case enrollment_store (enrollments db) self of
             Inl e \<Rightarrow> (Inl e, db)
           | Inr (tbl', self') \<Rightarrow> (Inr self', db\<lparr>enrollments := tbl'\<rparr>)))"

text \<open>
  \<open>Enrollment.mark_completed\<close>; \<open>today\<close> is \<open>timezone.now().date()\<close> and \<open>verifier\<close> the
  optional argument \<open>verified_by\<close>.
\<close>

definition mark_completed ::
  "database \<Rightarrow> date \<Rightarrow> enrollment \<Rightarrow> nat option \<Rightarrow> (error + enrollment) \<times> database" where
  "mark_completed db today self verifier =
     (if status self = COMPLETED
      then (Inl (ValidationError [] ''Enrollment is already completed.''), db)
      else if status self = CANCELLED
      then (Inl (ValidationError [] ''Cannot complete a cancelled enrollment.''), db)
      else enrollment_save db
             (self\<lparr>status := COMPLETED,
                   completion_date := Some today,
                   verified_by := (case verifier of None \<Rightarrow> verified_by self | Some v \<Rightarrow> Some v)\<rparr>))"

subsection \<open>Certificate: \<open>clean\<close>, \<open>save\<close>, \<open>verify_certificate\<close>\<close>

text \<open>\<open>Certificate.clean\<close>, check by check in the order of the source.\<close>

definition certificate_clean :: "database \<Rightarrow> certificate \<Rightarrow> error + unit" where
  "certificate_clean db self =
     (case get_enrollment (enrollments db) (cert_enrollment self) of
        None \<Rightarrow> Inl DoesNotExist
      | Some e \<Rightarrow>
          if status e \<noteq> COMPLETED
          then Inl (ValidationError ''enrollment''
                      ''Certificate can only be issued for completed enrollments.'')
          else (case completion_date e of
                  None \<Rightarrow> Inl (ValidationError ''enrollment''
                      ''Enrollment must have a completion date before issuing certificate.'')
                | Some d \<Rightarrow>
                    if date_less (issue_date self) d
                    then Inl (ValidationError ''issue_date''
                                ''Issue date cannot be before completion date.'')
                    else if cert_pk self = None \<and>
                            (\<exists>c \<in> set (certificates db). cert_enrollment c = cert_enrollment self)
                    then Inl (ValidationError ''enrollment''
                                ''A certificate already exists for this enrollment.'')
                    else Inr ()))"

text \<open>
  The write on the certificate table: the one-to-one field and the two \<open>unique=True\<close>
  columns are storage constraints.
\<close>

definition certificate_store ::
  "certificate list \<Rightarrow> certificate \<Rightarrow> error + certificate list \<times> certificate" where
  "certificate_store tbl self =
     (if \<exists>r \<in> set tbl. cert_pk r \<noteq> cert_pk self \<and>
            (cert_enrollment r = cert_enrollment self \<or>
             certificate_number r = certificate_number self \<or>
             verification_code r = verification_code self)
      then Inl IntegrityError
      else (case cert_pk self of
              None \<Rightarrow>
                (let self' = self\<lparr>cert_pk := Some (fresh_pk (map cert_pk tbl))\<rparr>
                 in Inr (tbl @ [self'], self'))
            | Some k \<Rightarrow>
                if Some k \<in> set (map cert_pk tbl)
                then Inr (map (\<lambda>r. if cert_pk r = Some k then self else r) tbl, self)
                else Inr (tbl @ [self], self)))"

text \<open>
  \<open>Certificate.save\<close>. \<open>today\<close> is the current date, \<open>uuid\<close> the value \<open>uuid.uuid4()\<close>
  returns, and \<open>pdf\<close> the outcome of \<open>generate_certificate_pdf\<close>: the file, or \<open>None\<close> when
  it raised, which \<open>_generate_and_attach_pdf\<close> logs and swallows.
\<close>

definition certificate_save ::
  "database \<Rightarrow> date \<Rightarrow> string \<Rightarrow> string option \<Rightarrow> certificate
     \<Rightarrow> (error + certificate) \<times> database" where
  "certificate_save db today uuid pdf self =
     (let is_new = (cert_pk self = None);
          s1 = (if is_new \<and> certificate_number self = []
                then self\<lparr>certificate_number :=
                       ''CERT-'' @ dec_str (year today) @ ''-'' @
                       zfill 6 (dec_str (length (filter (\<lambda>c. year (issue_date c) = year today)
                                                   (certificates db)) + 1))\<rparr>
                else self);
          s2 = (if is_new \<and> verification_code s1 = []
                then s1\<lparr>verification_code := uuid\<rparr> else s1)
      in case certificate_clean db s2 of
           Inl e \<Rightarrow> (Inl e, db)
         | Inr _ \<Rightarrow>
             (case certificate_store (certificates db) s2 of
                Inl e \<Rightarrow> (Inl e, db)
              | Inr (tbl', s3) \<Rightarrow>
                  if is_new \<and> certificate_file s3 = None \<and> pdf \<noteq> None
                  then (Inr (s3\<lparr>certificate_file := pdf\<rparr>),
                        db\<lparr>certificates :=
                             map (\<lambda>r. if cert_pk r = cert_pk s3
                                       then r\<lparr>certificate_file := pdf\<rparr> else r) tbl'\<rparr>)
                  else (Inr s3, db\<lparr>certificates := tbl'\<rparr>)))"

text \<open>
  \<open>Certificate.verify_certificate\<close>: \<open>objects.get\<close> with both conditions. No row is
  \<open>DoesNotExist\<close>, which the method turns into \<open>None\<close>; more than one row is
  \<open>MultipleObjectsReturned\<close>, which it does not catch.
\<close>

definition verify_certificate :: "certificate list \<Rightarrow> string \<Rightarrow> error + certificate option" where
  "verify_certificate tbl code =
     (case filter (\<lambda>c. verification_code c = code \<and> is_public c) tbl of
        [] \<Rightarrow> Inr None
      | [c] \<Rightarrow> Inr (Some c)
      | _ \<Rightarrow> Inl MultipleObjectsReturned)"

subsection \<open>Payment: \<open>generate_receipt_number\<close>, \<open>clean\<close>, \<open>save\<close>\<close>

text \<open>An amount of hundredths as \<open>str\<close> prints the decimal: \<open>1100.00\<close>.\<close>

definition show_money :: "int \<Rightarrow> string" where
  "show_money c =
     (if c < 0 then ''-'' else []) @ dec_str (nat (\<bar>c\<bar> div 100)) @ ''.'' @
     zfill 2 (dec_str (nat (\<bar>c\<bar> mod 100)))"

text \<open>
  \<open>Payment.generate_receipt_number\<close>. Year and month are those of \<open>timezone.now()\<close>, passed
  as \<open>today\<close>; the count is over the stored payments whose payment date lies in that month.
\<close>

definition generate_receipt_number :: "payment list \<Rightarrow> date \<Rightarrow> string" where
  "generate_receipt_number tbl today =
     (let count = length (filter (\<lambda>p. year (payment_date p) = year today \<and>
                                       month (payment_date p) = month today) tbl) + 1
      in ''RCP-'' @ dec_str (year today) @ zfill 2 (dec_str (month today)) @ ''-'' @
         zfill 5 (dec_str count))"

text \<open>\<open>Payment.get_total_paid_for_enrollment\<close>: the sum of the amounts, zero when there are none.\<close>

definition get_total_paid_for_enrollment :: "payment list \<Rightarrow> nat \<Rightarrow> int" where
  "get_total_paid_for_enrollment tbl k =
     sum_list (map amount (filter (\<lambda>p. pay_enrollment p = Some k) tbl))"

text \<open>
  \<open>Payment.clean\<close>. The existing payments are those of the same enrollment other than the
  instance itself (\<open>exclude(pk=self.pk)\<close>).
\<close>

definition payment_clean :: "database \<Rightarrow> date \<Rightarrow> payment \<Rightarrow> error + unit" where
  "payment_clean db today self =
     (case pay_enrollment self of
        None \<Rightarrow> Inl (ValidationError ''enrollment'' ''Payment must be linked to an enrollment.'')
      | Some k \<Rightarrow>
          (case get_enrollment (enrollments db) k of
             None \<Rightarrow> Inl DoesNotExist
           | Some e \<Rightarrow>
               if amount self \<le> 0
               then Inl (ValidationError ''amount'' ''Payment amount must be greater than zero.'')
               else
                 (let existing_payments =
                        filter (\<lambda>p. pay_enrollment p = Some k \<and> pay_pk p \<noteq> pay_pk self)
                          (payments db);
                      total_paid = sum_list (map amount existing_payments) + amount self
                  in case get_course (courses db) (course e) of
                       None \<Rightarrow> Inl DoesNotExist
                     | Some c \<Rightarrow>
                         if total_paid > price c
                         then Inl (ValidationError ''amount''
                                (''Total payments ($'' @ show_money total_paid @
                                 '') cannot exceed course price ($'' @ show_money (price c) @
                                 '').''))
                         else
                           (case date_lt (payment_date self) (enrollment_date e) of
                              Inl err \<Rightarrow> Inl err
                            | Inr before \<Rightarrow>
                                if before
                                then Inl (ValidationError ''payment_date''
                                       ''Payment date cannot be before enrollment date.'')
                                else if date_less today (payment_date self)
                                then Inl (ValidationError ''payment_date''
                                       ''Payment date cannot be in the future.'')
                                else Inr ()))))"

text \<open>The write on the payment table; \<open>receipt_number\<close> is \<open>unique=True\<close> and nullable.\<close>

definition payment_store :: "payment list \<Rightarrow> payment \<Rightarrow> error + payment list \<times> payment" where
  "payment_store tbl self =
     (if \<exists>r \<in> set tbl. pay_pk r \<noteq> pay_pk self \<and> receipt_number self \<noteq> None \<and>
            receipt_number r = receipt_number self
      then Inl IntegrityError
      else (case pay_pk self of
              None \<Rightarrow>
                (let self' = self\<lparr>pay_pk := Some (fresh_pk (map pay_pk tbl))\<rparr>
                 in Inr (tbl @ [self'], self'))
            | Some k \<Rightarrow>
                if Some k \<in> set (map pay_pk tbl)
                then Inr (map (\<lambda>r. if pay_pk r = Some k then self else r) tbl, self)
                else Inr (tbl @ [self], self)))"

text \<open>
  \<open>Payment.save\<close>: a new payment without receipt number gets one, then \<open>clean\<close>, then the
  write.
\<close>

definition payment_save :: "database \<Rightarrow> date \<Rightarrow> payment \<Rightarrow> (error + payment) \<times> database" where
  "payment_save db today self =
     (let s1 = (if pay_pk self = None \<and>
                   (receipt_number self = None \<or> receipt_number self = Some [])
                then self\<lparr>receipt_number := Some (generate_receipt_number (payments db) today)\<rparr>
                else self)
      in case payment_clean db today s1 of
           Inl e \<Rightarrow> (Inl e, db)
         | Inr _ \<Rightarrow>
             (case payment_store (payments db) s1 of
                Inl e \<Rightarrow> (Inl e, db)
              | Inr (tbl', s2) \<Rightarrow> (Inr s2, db\<lparr>payments := tbl'\<rparr>)))"

text \<open>
  The payments of a database are in order when every stored payment has a key of its own
  and a positive amount, and the payments of every enrollment sum to at most the price of
  its course.
\<close>

definition payments_ok :: "database \<Rightarrow> bool" where
  "payments_ok db \<longleftrightarrow>
     distinct (map pay_pk (payments db)) \<and>
     (\<forall>p \<in> set (payments db). pay_pk p \<noteq> None \<and> 0 < amount p) \<and>
     (\<forall>k e c. get_enrollment (enrollments db) k = Some e \<longrightarrow>
              get_course (courses db) (course e) = Some c \<longrightarrow>
              get_total_paid_for_enrollment (payments db) k \<le> price c)"

subsection \<open>Course: prerequisite validation of the serializers\<close>

text \<open>
  \<open>Course.is_prerequisite_for\<close>: \<open>course.prerequisites.filter(id=self.id).exists()\<close>, a row
  of the prerequisite table from \<open>course\<close> to \<open>self\<close>.
\<close>

definition is_prerequisite_for :: "database \<Rightarrow> course \<Rightarrow> course \<Rightarrow> bool" where
  "is_prerequisite_for db self other \<longleftrightarrow>
     (course_id other, course_id self) \<in> set (course_prerequisites db)"

definition quote :: string where
  "quote = [CHR 0x27]"

text \<open>
  The loop both serializers run over the submitted prerequisites, with the message of the
  circular case as a parameter; the first offending entry raises.
\<close>

fun prerequisites_loop ::
  "(course \<Rightarrow> course \<Rightarrow> string) \<Rightarrow> database \<Rightarrow> course \<Rightarrow> course list \<Rightarrow> error + unit" where
  "prerequisites_loop circular db instance [] = Inr ()"
| "prerequisites_loop circular db instance (prereq # rest) =
     (if course_id prereq = course_id instance
      then Inl (ValidationError [] ''A course cannot be its own prerequisite.'')
      else if is_prerequisite_for db instance prereq
      then Inl (ValidationError [] (circular instance prereq))
      else prerequisites_loop circular db instance rest)"

text \<open>
  \<open>CourseSerializer.validate_prerequisites\<close>; \<open>instance\<close> is \<open>self.instance\<close>, \<open>None\<close> when a
  course is being created.
\<close>

definition course_validate_prerequisites ::
  "database \<Rightarrow> course option \<Rightarrow> course list \<Rightarrow> error + course list" where
  "course_validate_prerequisites db instance value =
     (case instance of
        None \<Rightarrow> Inr value
      | Some i \<Rightarrow>
          (case prerequisites_loop
                  (\<lambda>i p. ''Circular dependency: '' @ quote @ title p @ quote @ '' already has '' @
                          quote @ title i @ quote @ '' as a prerequisite.'')
                  db i value of
             Inl e \<Rightarrow> Inl e
           | Inr _ \<Rightarrow> Inr value))"

text \<open>\<open>CourseCreateUpdateSerializer.validate_prerequisites\<close>, the one the views use to write.\<close>

definition create_update_validate_prerequisites ::
  "database \<Rightarrow> course option \<Rightarrow> course list \<Rightarrow> error + course list" where
  "create_update_validate_prerequisites db instance value =
     (case instance of
        None \<Rightarrow> Inr value
      | Some i \<Rightarrow>
          (case prerequisites_loop
                  (\<lambda>i p. ''Circular dependency detected with '' @ quote @ title p @ quote @ ''.'')
                  db i value of
             Inl e \<Rightarrow> Inl e
           | Inr _ \<Rightarrow> Inr value))"

subsection \<open>payments.utils: \<open>bulk_payment_validation\<close>\<close>

text \<open>
  A payment record is a dictionary from field names to the values a request body holds:
  integers, strings and \<open>null\<close>. Two conversions of the language and its library are
  parameters of the model: \<open>py_int\<close> reads a string as an integer (\<open>None\<close> when it is not
  one) and \<open>py_decimal\<close> reads a string as a decimal (\<open>None\<close> when \<open>Decimal\<close> raises
  \<open>InvalidOperation\<close>).
\<close>

datatype pyval = PyInt int | PyStr string | PyNone

type_synonym payment_data = "(string \<times> pyval) list"

text \<open>An entry of the error list: the index and what the message reports.\<close>

datatype bulk_error =
    MissingField string
  | EnrollmentDoesNotExist pyval
  | AmountNotPositive
  | InvalidAmountFormat
  | ExceedsBalance rat int

definition required_fields :: "string list" where
  "required_fields = [''enrollment_id'', ''amount'', ''payment_method'']"

text \<open>\<open>Enrollment.objects.get(id=v)\<close>: the key and the row, or the exception.\<close>

definition enrollment_objects_get ::
  "(string \<Rightarrow> int option) \<Rightarrow> enrollment list \<Rightarrow> pyval \<Rightarrow> error + nat \<times> enrollment" where
  "enrollment_objects_get py_int tbl v =
     (case (case v of PyInt n \<Rightarrow> Inr n
                    | PyStr s \<Rightarrow> (case py_int s of None \<Rightarrow> Inl ValueError | Some n \<Rightarrow> Inr n)
                    | PyNone \<Rightarrow> Inl DoesNotExist) of
        Inl e \<Rightarrow> Inl e
      | Inr n \<Rightarrow>
          if n < 0 then Inl DoesNotExist
          else (case get_enrollment tbl (nat n) of
                  None \<Rightarrow> Inl DoesNotExist
                | Some e \<Rightarrow> Inr (nat n, e)))"

text \<open>\<open>Decimal(str(v))\<close>, the amount in currency units.\<close>

definition decimal_of_str :: "(string \<Rightarrow> rat option) \<Rightarrow> pyval \<Rightarrow> error + rat" where
  "decimal_of_str py_decimal v =
     (case v of
        PyInt n \<Rightarrow> Inr (of_int n)
      | PyStr s \<Rightarrow> (case py_decimal s of None \<Rightarrow> Inl InvalidOperation | Some q \<Rightarrow> Inr q)
      | PyNone \<Rightarrow> Inl InvalidOperation)"

text \<open>\<open>Payment.get_outstanding_balance\<close> of the enrollment stored under key \<open>k\<close>, in hundredths.\<close>

definition get_outstanding_balance :: "database \<Rightarrow> nat \<Rightarrow> enrollment \<Rightarrow> error + int" where
  "get_outstanding_balance db k e =
     (case get_course (courses db) (course e) of
        None \<Rightarrow> Inl DoesNotExist
      | Some c \<Rightarrow> Inr (price c - get_total_paid_for_enrollment (payments db) k))"

text \<open>
  The loop over \<open>enumerate(payment_data_list)\<close>. The \<open>continue\<close> of the check for required
  fields belongs to the inner loop over the field names, so the checks after it run for
  every record; \<open>payment_data['enrollment_id']\<close> and \<open>payment_data['amount']\<close> raise
  \<open>KeyError\<close> on a missing key. The handlers catch \<open>Enrollment.DoesNotExist\<close> around the
  lookup and \<open>ValueError\<close>, \<open>TypeError\<close> around the amount; every other exception leaves
  the function.
\<close>

fun bulk_loop ::
  "(string \<Rightarrow> int option) \<Rightarrow> (string \<Rightarrow> rat option) \<Rightarrow> database \<Rightarrow> nat \<Rightarrow>
     payment_data list \<Rightarrow> (nat \<times> bulk_error) list \<Rightarrow> error + (nat \<times> bulk_error) list" where
  "bulk_loop py_int py_decimal db i [] errors = Inr errors"
| "bulk_loop py_int py_decimal db i (payment_data # rest) errors =
     (let errors1 = errors @ map (\<lambda>field. (i, MissingField field))
                       (filter (\<lambda>field. map_of payment_data field = None) required_fields)
      in case map_of payment_data ''enrollment_id'' of
           None \<Rightarrow> Inl (KeyError ''enrollment_id'')
         | Some v \<Rightarrow>
             (case enrollment_objects_get py_int (enrollments db) v of
                Inl DoesNotExist \<Rightarrow>
                  bulk_loop py_int py_decimal db (Suc i) rest
                    (errors1 @ [(i, EnrollmentDoesNotExist v)])
              | Inl e \<Rightarrow> Inl e
              | Inr (k, enrollment) \<Rightarrow>
                  (case map_of payment_data ''amount'' of
                     None \<Rightarrow> Inl (KeyError ''amount'')
                   | Some a \<Rightarrow>
                       (case decimal_of_str py_decimal a of
                          Inl ValueError \<Rightarrow>
                            bulk_loop py_int py_decimal db (Suc i) rest
                              (errors1 @ [(i, InvalidAmountFormat)])
                        | Inl TypeError \<Rightarrow>
                            bulk_loop py_int py_decimal db (Suc i) rest
                              (errors1 @ [(i, InvalidAmountFormat)])
                        | Inl e \<Rightarrow> Inl e
                        | Inr amt \<Rightarrow>
                            if amt \<le> 0
                            then bulk_loop py_int py_decimal db (Suc i) rest
                                   (errors1 @ [(i, AmountNotPositive)])
                            else (case get_outstanding_balance db k enrollment of
                                    Inl e \<Rightarrow> Inl e
                                  | Inr outstanding \<Rightarrow>
                                      if amt > of_int outstanding / 100
                                      then bulk_loop py_int py_decimal db (Suc i) rest
                                             (errors1 @ [(i, ExceedsBalance amt outstanding)])
                                      else bulk_loop py_int py_decimal db (Suc i) rest errors1)))))"

definition bulk_payment_validation ::
  "(string \<Rightarrow> int option) \<Rightarrow> (string \<Rightarrow> rat option) \<Rightarrow> database \<Rightarrow> payment_data list
     \<Rightarrow> error + bool \<times> (nat \<times> bulk_error) list" where
  "bulk_payment_validation py_int py_decimal db payment_data_list =
     (case bulk_loop py_int py_decimal db 0 payment_data_list [] of
        Inl e \<Rightarrow> Inl e
      | Inr errors \<Rightarrow> Inr (length errors = 0, errors))"

subsection \<open>payments.utils: \<open>calculate_payment_plan\<close> over \<open>decimal.Decimal\<close>\<close>

text \<open>
  The prices this function receives are \<open>Decimal\<close> values. A finite \<open>Decimal\<close> is a
  coefficient and an exponent, the number \<open>c * 10 ^ e\<close>. Every operation computes the
  exact result and rounds it to the precision of the context, 28 significant digits, half
  to even: the default context, which the sources never change. The bounds of the context
  on the exponent play no part here.
\<close>

type_synonym decimal = "int \<times> int"

definition prec :: nat where
  "prec = 28"

text \<open>The number of decimal digits of a non-negative integer, \<open>len(str(n))\<close>.\<close>

function ndigits :: "int \<Rightarrow> nat" where
  "ndigits n = (if n < 10 then 1 else Suc (ndigits (n div 10)))"
  by pat_completeness auto
termination
  by (relation "measure nat") auto

declare ndigits.simps [simp del]

text \<open>Dropping the last \<open>d\<close> digits of a non-negative coefficient, half to even.\<close>

definition round_half_even :: "int \<Rightarrow> nat \<Rightarrow> int" where
  "round_half_even c d =
     (let p = 10 ^ d; q = c div p; r = c mod p
      in if 2 * r > p \<or> (2 * r = p \<and> q mod 2 = 1) then q + 1 else q)"

text \<open>
  \<open>Decimal._fix\<close>: a coefficient of more than 28 digits is rounded to 28; when the rounding
  carries into a 29th digit, the last digit, a zero, is dropped.
\<close>

definition dec_fix :: "decimal \<Rightarrow> decimal" where
  "dec_fix x =
     (let c = fst x; e = snd x; n = ndigits \<bar>c\<bar>
      in if n \<le> prec then (c, e)
         else
           (let q = round_half_even \<bar>c\<bar> (n - prec); e' = e + int (n - prec)
            in if ndigits q > prec then (sgn c * (q div 10), e' + 1) else (sgn c * q, e')))"

text \<open>\<open>Decimal.__add__\<close> and \<open>__sub__\<close>: align the exponents, add exactly, round.\<close>

definition dec_add :: "decimal \<Rightarrow> decimal \<Rightarrow> decimal" where
  "dec_add a b =
     (let e = min (snd a) (snd b)
      in dec_fix (fst a * 10 ^ nat (snd a - e) + fst b * 10 ^ nat (snd b - e), e))"

definition dec_sub :: "decimal \<Rightarrow> decimal \<Rightarrow> decimal" where
  "dec_sub a b = dec_add a (- fst b, snd b)"

text \<open>\<open>==\<close> on two decimals compares their values.\<close>

definition dec_eq :: "decimal \<Rightarrow> decimal \<Rightarrow> bool" where
  "dec_eq a b \<longleftrightarrow>
     (let e = min (snd a) (snd b)
      in fst a * 10 ^ nat (snd a - e) = fst b * 10 ^ nat (snd b - e))"

text \<open>
  The loop of \<open>Decimal.__truediv__\<close> for a division that leaves no remainder: zeros at the
  end of the coefficient are removed while the exponent is below the ideal one.
\<close>

function strip_zeros :: "int \<Rightarrow> int \<Rightarrow> int \<Rightarrow> decimal" where
  "strip_zeros coeff e ideal_exp =
     (if e < ideal_exp \<and> coeff mod 10 = 0
      then strip_zeros (coeff div 10) (e + 1) ideal_exp
      else (coeff, e))"
  by pat_completeness auto
termination
  by (relation "measure (\<lambda>(coeff, e, ideal_exp). nat (ideal_exp - e))") auto

declare strip_zeros.simps [simp del]

text \<open>
  \<open>Decimal.__truediv__\<close> by a positive integer \<open>n\<close>, which the operator first turns into
  the decimal \<open>(n, 0)\<close>: the integer quotient with one digit more than the precision; when
  the division leaves a remainder, a last digit 0 or 5 is moved up by one, so that the
  rounding sees the remainder; then \<open>_fix\<close>.
\<close>

definition dec_div_int :: "decimal \<Rightarrow> int \<Rightarrow> decimal" where
  "dec_div_int x n =
     (let c = fst x; e = snd x
      in if c = 0 then (0, e)
         else
           (let shift = int (ndigits n) - int (ndigits \<bar>c\<bar>) + int prec + 1;
                num = (if shift \<ge> 0 then \<bar>c\<bar> * 10 ^ nat shift else \<bar>c\<bar>);
                den = (if shift \<ge> 0 then n else n * 10 ^ nat (- shift));
                coeff = num div den;
                remainder = num mod den
            in if remainder \<noteq> 0
               then dec_fix (sgn c * (if coeff mod 5 = 0 then coeff + 1 else coeff), e - shift)
               else (let stripped = strip_zeros coeff (e - shift) e
                     in dec_fix (sgn c * fst stripped, snd stripped))))"

text \<open>\<open>sum\<close> of a list of decimals: from the integer 0, one addition after the other.\<close>

definition dec_sum :: "decimal list \<Rightarrow> decimal" where
  "dec_sum xs = fold (\<lambda>x acc. dec_add acc x) xs (0, 0)"

text \<open>The value of a decimal as a rational number.\<close>

definition dec_value :: "decimal \<Rightarrow> rat" where
  "dec_value x =
     (if snd x \<ge> 0 then of_int (fst x * 10 ^ nat (snd x))
      else of_int (fst x) / of_int (10 ^ nat (- snd x)))"

text \<open>\<open>calculate_payment_plan\<close>, statement by statement.\<close>

definition calculate_payment_plan :: "decimal \<Rightarrow> int \<Rightarrow> decimal list" where
  "calculate_payment_plan course_price num_installments =
     (if num_installments \<le> 0 then []
      else
        (let installment_amount = dec_div_int course_price num_installments;
             installments = replicate (nat num_installments) installment_amount;
             total_calculated = dec_sum installments;
             difference = dec_sub course_price total_calculated
         in if fst difference \<noteq> 0
            then butlast installments @ [dec_add (last installments) difference]
            else installments))"

section \<open>Example data\<close>

definition student_row :: user where
  "student_row = \<lparr>user_pk = Some 1, username = ''student'', email = ''student@test.com'',
     user_role = STUDENT, is_staff = False\<rparr>"

definition new_admin :: user where
  "new_admin = \<lparr>user_pk = None, username = ''admin'', email = ''admin@test.com'',
     user_role = ADMIN, is_staff = False\<rparr>"


definition cancelled_row :: enrollment where
  "cancelled_row = \<lparr>enr_pk = Some 1, student = 1, course = 1,
     enrollment_date = DateValue (Date 2025 1 10), completion_date = None,
     status = CANCELLED, verified_by = None\<rparr>"

definition running_row :: enrollment where
  "running_row = \<lparr>enr_pk = Some 1, student = 1, course = 1,
     enrollment_date = DateValue (Date 2025 3 10), completion_date = None,
     status = IN_PROGRESS, verified_by = None\<rparr>"

definition new_enrollment :: enrollment where
  "new_enrollment = \<lparr>enr_pk = None, student = 1, course = 1,
     enrollment_date = DateValue (Date 2025 3 10), completion_date = None,
     status = IN_PROGRESS, verified_by = None\<rparr>"

definition created_enrollment :: enrollment where
  "created_enrollment = \<lparr>enr_pk = None, student = 1, course = 1,
     enrollment_date = DateTimeValue (Date 2025 3 10), completion_date = None,
     status = IN_PROGRESS, verified_by = None\<rparr>"

definition db_of :: "enrollment list \<Rightarrow> database" where
  "db_of es = \<lparr>users = [student_row],
     courses = [\<lparr>course_id = 1, title = ''Python Basics'', price = 100000\<rparr>],
     course_prerequisites = [], enrollments = es, payments = [], certificates = []\<rparr>"

definition new_certificate :: certificate where
  "new_certificate = \<lparr>cert_pk = None, cert_enrollment = 1, certificate_number = [],
     verification_code = [], issue_date = Date 2025 3 12, is_public = True,
     certificate_file = None\<rparr>"

definition public_certificate :: certificate where
  "public_certificate = \<lparr>cert_pk = Some 1, cert_enrollment = 1,
     certificate_number = ''CERT-2025-000001'', verification_code = ''code-a'',
     issue_date = Date 2025 3 12, is_public = True, certificate_file = None\<rparr>"

definition private_certificate :: certificate where
  "private_certificate = \<lparr>cert_pk = Some 2, cert_enrollment = 2,
     certificate_number = ''CERT-2025-000002'', verification_code = ''code-b'',
     issue_date = Date 2025 3 12, is_public = False, certificate_file = None\<rparr>"

definition march_payment :: payment where
  "march_payment = \<lparr>pay_pk = None, pay_enrollment = Some 1, amount = 80000,
     payment_date = Date 2025 3 31, receipt_number = None\<rparr>"

definition db_pay :: "payment list \<Rightarrow> database" where
  "db_pay ps = \<lparr>users = [student_row],
     courses = [\<lparr>course_id = 1, title = ''Python Basics'', price = 100000\<rparr>],
     course_prerequisites = [], enrollments = [running_row], payments = ps,
     certificates = []\<rparr>"

definition paid_800 :: payment where
  "paid_800 = \<lparr>pay_pk = Some 1, pay_enrollment = Some 1, amount = 80000,
     payment_date = Date 2025 3 20, receipt_number = Some ''RCP-202503-00001''\<rparr>"

definition pay_300 :: payment where
  "pay_300 = \<lparr>pay_pk = None, pay_enrollment = Some 1, amount = 30000,
     payment_date = Date 2025 3 31, receipt_number = None\<rparr>"

definition python_basics :: course where
  "python_basics = \<lparr>course_id = 1, title = ''Python Basics'', price = 100000\<rparr>"

definition python_advanced :: course where
  "python_advanced = \<lparr>course_id = 2, title = ''Python Advanced'', price = 150000\<rparr>"

definition web_basics :: course where
  "web_basics = \<lparr>course_id = 3, title = ''Web Basics'', price = 120000\<rparr>"

definition db_courses :: database where
  "db_courses = \<lparr>users = [], courses = [python_basics, python_advanced, web_basics],
     course_prerequisites = [(2, 1)], enrollments = [], payments = [], certificates = []\<rparr>"

section \<open>Properties\<close>

subsection \<open>Staff flag\<close>

lemma fresh_pk_notin: "Some (fresh_pk ks) \<notin> set ks"
proof -
  have le: "\<And>a. fold max xs a \<ge> a \<and> (\<forall>x \<in> set xs. x \<le> fold max xs a)" for xs :: "nat list"
  proof (induction xs)
    case Nil
    show ?case by simp
  next
    case (Cons y ys)
    show ?case
      using Cons.IH [of "max y a"] by (auto simp: max_def split: if_splits)
  qed
  show ?thesis
  proof
    assume "Some (fresh_pk ks) \<in> set ks"
    then have "fresh_pk ks \<in> set (map (\<lambda>k. case k of None \<Rightarrow> 0 | Some n \<Rightarrow> n) ks)"
      by force
    then have "fresh_pk ks \<le> fold max (map (\<lambda>k. case k of None \<Rightarrow> 0 | Some n \<Rightarrow> n) ks) 0"
      using le by blast
    then show False by (simp add: fresh_pk_def)
  qed
qed






text \<open>
  Without the import of \<open>accounts.signals\<close> no receiver runs, and a save stores the flag
  as the object carries it.
\<close>

lemma save_without_receivers:
  "user_save False None [] new_admin =
     (Inr (new_admin\<lparr>user_pk := Some 1\<rparr>), [new_admin\<lparr>user_pk := Some 1\<rparr>])"
  by code_simp











subsection \<open>Enrollment\<close>

text \<open>
  C3. Re-enrollment after cancellation. With one cancelled enrollment stored for a
  (student, course) pair, \<open>clean\<close> accepts a new enrollment of the same pair (its duplicate
  check leaves cancelled rows out), yet the save fails: the storage constraint
  \<open>unique_together\<close> counts the cancelled row and the write raises \<open>IntegrityError\<close>.
\<close>

theorem reenroll_after_cancel_rejected:
  "enrollment_clean (db_of [cancelled_row]) new_enrollment = Inr () \<and>
   enrollment_save (db_of [cancelled_row]) new_enrollment = (Inl IntegrityError, db_of [cancelled_row])"
  by code_simp

text \<open>
  An enrollment created without a value for \<open>enrollment_date\<close> holds a datetime there,
  also after its save; the row stored holds the date. \<open>mark_completed\<close> on that instance
  reaches the comparison of \<open>clean\<close> and raises \<open>TypeError\<close>, and nothing is stored; on
  the row loaded again it completes the enrollment.
\<close>

lemma mark_completed_created_instance:
  "enrollment_save (db_of []) created_enrollment =
     (Inr (created_enrollment\<lparr>enr_pk := Some 1\<rparr>), db_of [new_enrollment\<lparr>enr_pk := Some 1\<rparr>]) \<and>
   mark_completed (db_of [new_enrollment\<lparr>enr_pk := Some 1\<rparr>]) (Date 2025 3 11)
       (created_enrollment\<lparr>enr_pk := Some 1\<rparr>) None =
     (Inl TypeError, db_of [new_enrollment\<lparr>enr_pk := Some 1\<rparr>]) \<and>
   fst (mark_completed (db_of [new_enrollment\<lparr>enr_pk := Some 1\<rparr>]) (Date 2025 3 11)
       (new_enrollment\<lparr>enr_pk := Some 1\<rparr>) None) =
     Inr (new_enrollment\<lparr>enr_pk := Some 1, status := COMPLETED,
            completion_date := Some (Date 2025 3 11)\<rparr>)"
  by code_simp




subsection \<open>Certificate\<close>

text \<open>
  C5. Saving a certificate for an enrollment whose status is not COMPLETED, or whose
  completion date is null, raises a validation error on the field \<open>enrollment\<close> and
  leaves the database unchanged: no certificate is stored.
\<close>

theorem certificate_requires_completed_enrollment:
  assumes "get_enrollment (enrollments db) (cert_enrollment self) = Some e"
    and "status e \<noteq> COMPLETED \<or> completion_date e = None"
  shows "\<exists>msg. certificate_save db today uuid pdf self =
           (Inl (ValidationError ''enrollment'' msg), db)"
proof -
  define s1 where "s1 = (if cert_pk self = None \<and> certificate_number self = []
                then self\<lparr>certificate_number :=
                       ''CERT-'' @ dec_str (year today) @ ''-'' @
                       zfill 6 (dec_str (length (filter (\<lambda>c. year (issue_date c) = year today)
                                                   (certificates db)) + 1))\<rparr>
                else self)"
  define s2 where "s2 = (if cert_pk self = None \<and> verification_code s1 = []
                then s1\<lparr>verification_code := uuid\<rparr> else s1)"
  have enr: "cert_enrollment s2 = cert_enrollment self"
    by (simp add: s1_def s2_def)
  have "\<exists>msg. certificate_clean db s2 = Inl (ValidationError ''enrollment'' msg)"
    using assms by (auto simp: certificate_clean_def enr split: option.splits)
  then obtain msg where cl: "certificate_clean db s2 = Inl (ValidationError ''enrollment'' msg)" ..
  have "certificate_save db today uuid pdf self = (Inl (ValidationError ''enrollment'' msg), db)"
    unfolding certificate_save_def Let_def s1_def [symmetric] s2_def [symmetric]
    by (simp add: cl)
  then show ?thesis ..
qed

theorem certificate_requires_completed_enrollment_witness:
  "status running_row = IN_PROGRESS \<and>
   snd (certificate_save (db_of [running_row]) (Date 2025 3 12) ''u-1'' None new_certificate) =
     db_of [running_row] \<and>
   fst (certificate_save (db_of [running_row]) (Date 2025 3 12) ''u-1'' None new_certificate) =
     Inl (ValidationError ''enrollment''
            ''Certificate can only be issued for completed enrollments.'')"
proof -
  have h1: "get_enrollment (enrollments (db_of [running_row])) (cert_enrollment new_certificate)
              = Some running_row"
    by code_simp
  have h2: "status running_row = IN_PROGRESS" by code_simp
  then have h3: "status running_row \<noteq> COMPLETED \<or> completion_date running_row = None" by simp
  from certificate_requires_completed_enrollment [OF h1 h3, of "Date 2025 3 12" "''u-1''" None]
  obtain msg where
    "certificate_save (db_of [running_row]) (Date 2025 3 12) ''u-1'' None new_certificate =
       (Inl (ValidationError ''enrollment'' msg), db_of [running_row])" ..
  then have "snd (certificate_save (db_of [running_row]) (Date 2025 3 12) ''u-1'' None
      new_certificate) = db_of [running_row]"
    by simp
  moreover have "fst (certificate_save (db_of [running_row]) (Date 2025 3 12) ''u-1'' None
      new_certificate) = Inl (ValidationError ''enrollment''
            ''Certificate can only be issued for completed enrollments.'')"
    by code_simp
  ultimately show ?thesis using h2 by simp
qed

lemma filter_unique_code:
  assumes "distinct (map verification_code tbl)"
  shows "filter (\<lambda>c. verification_code c = code \<and> is_public c) tbl = [] \<or>
         (\<exists>c. filter (\<lambda>c. verification_code c = code \<and> is_public c) tbl = [c])"
  using assms
proof (induction tbl)
  case Nil
  then show ?case by simp
next
  case (Cons x xs)
  show ?case
  proof (cases "verification_code x = code \<and> is_public x")
    case True
    have "code \<notin> verification_code ` set xs"
      using Cons.prems True by auto
    then have "\<forall>c \<in> set xs. verification_code c \<noteq> code" by blast
    then have "filter (\<lambda>c. verification_code c = code \<and> is_public c) xs = []"
      by (simp add: filter_empty_conv)
    with True show ?thesis by simp
  next
    case False
    with Cons show ?thesis by auto
  qed
qed

text \<open>
  C6. Verification codes are unique in the certificate table (\<open>unique=True\<close>). Then
  \<open>verify_certificate\<close> returns a certificate exactly when that certificate is stored,
  carries the code and is public; and it returns \<open>None\<close> whenever no stored certificate
  with the code is public, so a code nobody carries and the code of a private certificate
  give the same answer.
\<close>

theorem verify_certificate_public_only:
  assumes "distinct (map verification_code tbl)"
  shows "(verify_certificate tbl code = Inr (Some c) \<longleftrightarrow>
            c \<in> set tbl \<and> verification_code c = code \<and> is_public c) \<and>
         ((\<forall>x \<in> set tbl. verification_code x = code \<longrightarrow> \<not> is_public x) \<longrightarrow>
            verify_certificate tbl code = Inr None)"
proof -
  let ?m = "filter (\<lambda>c. verification_code c = code \<and> is_public c) tbl"
  have mem: "set ?m = {x \<in> set tbl. verification_code x = code \<and> is_public x}" by auto
  from filter_unique_code [OF assms, of code]
  consider "?m = []" | c' where "?m = [c']" by blast
  then show ?thesis
  proof cases
    case 1
    then have "verify_certificate tbl code = Inr None" by (simp add: verify_certificate_def)
    moreover from 1 mem have "\<not> (c \<in> set tbl \<and> verification_code c = code \<and> is_public c)"
      by auto
    ultimately show ?thesis by simp
  next
    case 2
    then have v: "verify_certificate tbl code = Inr (Some c')" by (simp add: verify_certificate_def)
    from 2 mem have "{x \<in> set tbl. verification_code x = code \<and> is_public x} = {c'}" by simp
    then have "\<And>x. (x \<in> set tbl \<and> verification_code x = code \<and> is_public x) = (x = c')"
      by blast
    with v show ?thesis by auto
  qed
qed

theorem verify_certificate_public_only_witness:
  "distinct (map verification_code [public_certificate, private_certificate]) \<and>
   verify_certificate [public_certificate, private_certificate] ''code-a'' =
     Inr (Some public_certificate) \<and>
   verify_certificate [public_certificate, private_certificate] ''code-b'' = Inr None \<and>
   verify_certificate [public_certificate, private_certificate] ''code-c'' = Inr None"
proof -
  have d: "distinct (map verification_code [public_certificate, private_certificate])"
    by code_simp
  have a: "public_certificate \<in> set [public_certificate, private_certificate] \<and>
           verification_code public_certificate = ''code-a'' \<and> is_public public_certificate"
    by code_simp
  have b: "\<forall>x \<in> set [public_certificate, private_certificate].
             verification_code x = ''code-b'' \<longrightarrow> \<not> is_public x"
    by code_simp
  have c: "\<forall>x \<in> set [public_certificate, private_certificate].
             verification_code x = ''code-c'' \<longrightarrow> \<not> is_public x"
    by code_simp
  from verify_certificate_public_only [OF d, of "''code-a''" public_certificate] a
  have "verify_certificate [public_certificate, private_certificate] ''code-a'' =
     Inr (Some public_certificate)" by blast
  moreover from verify_certificate_public_only [OF d, of "''code-b''"] b
  have "verify_certificate [public_certificate, private_certificate] ''code-b'' = Inr None"
    by blast
  moreover from verify_certificate_public_only [OF d, of "''code-c''"] c
  have "verify_certificate [public_certificate, private_certificate] ''code-c'' = Inr None"
    by blast
  ultimately show ?thesis using d by blast
qed

subsection \<open>Payment\<close>

lemma total_append:
  "get_total_paid_for_enrollment (tbl @ [x]) k =
   get_total_paid_for_enrollment tbl k + (if pay_enrollment x = Some k then amount x else 0)"
  by (simp add: get_total_paid_for_enrollment_def)

text \<open>The sum that \<open>clean\<close> forms: the payments of enrollment \<open>k\<close> under keys other than \<open>pk\<close>.\<close>

lemma others_le_total:
  assumes "\<forall>p \<in> set tbl. 0 < amount p"
  shows "sum_list (map amount (filter (\<lambda>p. pay_enrollment p = Some k \<and> pay_pk p \<noteq> pk) tbl))
         \<le> get_total_paid_for_enrollment tbl k"
  using assms unfolding get_total_paid_for_enrollment_def
  by (induction tbl) auto

lemma others_eq_total:
  assumes "pk \<notin> set (map pay_pk tbl)"
  shows "sum_list (map amount (filter (\<lambda>p. pay_enrollment p = Some k \<and> pay_pk p \<noteq> pk) tbl))
         = get_total_paid_for_enrollment tbl k"
  using assms unfolding get_total_paid_for_enrollment_def
  by (induction tbl) auto

lemma total_replace:
  assumes "distinct (map pay_pk tbl)" and "pk \<in> set (map pay_pk tbl)"
  shows "get_total_paid_for_enrollment (map (\<lambda>r. if pay_pk r = pk then s else r) tbl) k =
         sum_list (map amount (filter (\<lambda>p. pay_enrollment p = Some k \<and> pay_pk p \<noteq> pk) tbl)) +
         (if pay_enrollment s = Some k then amount s else 0)"
  using assms
proof (induction tbl)
  case Nil
  then show ?case by simp
next
  case (Cons r rs)
  show ?case
  proof (cases "pay_pk r = pk")
    case True
    with Cons.prems have notin: "pk \<notin> set (map pay_pk rs)" by auto
    then have same: "map (\<lambda>r. if pay_pk r = pk then s else r) rs = rs"
      by (induction rs) auto
    from others_eq_total [OF notin, of k] True same show ?thesis
      by (simp add: get_total_paid_for_enrollment_def)
  next
    case False
    with Cons.prems have "distinct (map pay_pk rs)" "pk \<in> set (map pay_pk rs)" by auto
    from Cons.IH [OF this] False show ?thesis
      by (simp add: get_total_paid_for_enrollment_def)
  qed
qed

lemma payment_clean_ok:
  assumes "payment_clean db today s = Inr u"
  shows "\<exists>k e c. pay_enrollment s = Some k \<and> get_enrollment (enrollments db) k = Some e \<and>
           get_course (courses db) (course e) = Some c \<and> 0 < amount s \<and>
           sum_list (map amount (filter (\<lambda>p. pay_enrollment p = Some k \<and> pay_pk p \<noteq> pay_pk s)
                                   (payments db))) + amount s \<le> price c"
  using assms
  by (auto simp: payment_clean_def Let_def split: option.splits if_splits)

lemma payment_store_cases:
  assumes "payment_store tbl s = Inr (tbl', s')"
  shows "(pay_pk s = None \<and> s' = s\<lparr>pay_pk := Some (fresh_pk (map pay_pk tbl))\<rparr> \<and> tbl' = tbl @ [s']) \<or>
         (pay_pk s \<noteq> None \<and> pay_pk s \<in> set (map pay_pk tbl) \<and> s' = s \<and>
            tbl' = map (\<lambda>r. if pay_pk r = pay_pk s then s else r) tbl) \<or>
         (pay_pk s \<noteq> None \<and> pay_pk s \<notin> set (map pay_pk tbl) \<and> s' = s \<and> tbl' = tbl @ [s])"
  using assms
  by (auto simp: payment_store_def Let_def split: option.splits if_splits)

lemma store_keeps_ok:
  assumes ok: "payments_ok db"
    and cl: "payment_clean db today s = Inr u"
    and st: "payment_store (payments db) s = Inr (tbl', s')"
  shows "payments_ok (db\<lparr>payments := tbl'\<rparr>)"
proof -
  let ?T = "payments db"
  from ok have d: "distinct (map pay_pk ?T)"
    and pos: "\<forall>p \<in> set ?T. pay_pk p \<noteq> None \<and> 0 < amount p"
    and le: "\<And>k e c. get_enrollment (enrollments db) k = Some e \<Longrightarrow>
              get_course (courses db) (course e) = Some c \<Longrightarrow>
              get_total_paid_for_enrollment ?T k \<le> price c"
    by (auto simp: payments_ok_def)
  from pos have pos': "\<forall>p \<in> set ?T. 0 < amount p" by blast
  from payment_clean_ok [OF cl] obtain k0 e0 c0 where
    k0: "pay_enrollment s = Some k0" and e0: "get_enrollment (enrollments db) k0 = Some e0"
    and c0: "get_course (courses db) (course e0) = Some c0" and am: "0 < amount s"
    and bound: "sum_list (map amount (filter (\<lambda>p. pay_enrollment p = Some k0 \<and> pay_pk p \<noteq> pay_pk s)
                                   ?T)) + amount s \<le> price c0"
    by blast
  have goal: "distinct (map pay_pk tbl') \<and> (\<forall>p \<in> set tbl'. pay_pk p \<noteq> None \<and> 0 < amount p) \<and>
     (\<forall>k e c. get_enrollment (enrollments db) k = Some e \<longrightarrow>
              get_course (courses db) (course e) = Some c \<longrightarrow>
              get_total_paid_for_enrollment tbl' k \<le> price c)"
  proof -
    from payment_store_cases [OF st]
    consider
      (new) "pay_pk s = None" "s' = s\<lparr>pay_pk := Some (fresh_pk (map pay_pk ?T))\<rparr>" "tbl' = ?T @ [s']"
      | (upd) "pay_pk s \<noteq> None" "pay_pk s \<in> set (map pay_pk ?T)" "s' = s"
          "tbl' = map (\<lambda>r. if pay_pk r = pay_pk s then s else r) ?T"
      | (ins) "pay_pk s \<noteq> None" "pay_pk s \<notin> set (map pay_pk ?T)" "s' = s" "tbl' = ?T @ [s]"
      by (elim disjE conjE) simp_all
    then show ?thesis
    proof cases
      case new
      have nn: "None \<notin> set (map pay_pk ?T)" using pos by auto
      have fresh: "Some (fresh_pk (map pay_pk ?T)) \<notin> set (map pay_pk ?T)"
        by (rule fresh_pk_notin)
      have 1: "distinct (map pay_pk tbl')" using d fresh new by simp
      have 2: "\<forall>p \<in> set tbl'. pay_pk p \<noteq> None \<and> 0 < amount p" using pos am new by auto
      have 3: "get_total_paid_for_enrollment tbl' k \<le> price c"
        if "get_enrollment (enrollments db) k = Some e" "get_course (courses db) (course e) = Some c"
        for k e c
      proof (cases "k = k0")
        case True
        with that e0 c0 have "c = c0" by simp
        moreover have "get_total_paid_for_enrollment tbl' k0 =
            get_total_paid_for_enrollment ?T k0 + amount s"
          using new k0 by (simp add: total_append)
        moreover have "sum_list (map amount (filter (\<lambda>p. pay_enrollment p = Some k0 \<and> pay_pk p \<noteq> pay_pk s) ?T))
            = get_total_paid_for_enrollment ?T k0"
          using others_eq_total [of "pay_pk s" ?T k0] nn new by simp
        ultimately show ?thesis using bound True by simp
      next
        case False
        then have "get_total_paid_for_enrollment tbl' k = get_total_paid_for_enrollment ?T k"
          using new k0 by (simp add: total_append)
        with le [OF that] show ?thesis by simp
      qed
      from 1 2 3 show ?thesis by blast
    next
      case upd
      have mp: "map pay_pk tbl' = map pay_pk ?T" unfolding upd by (induction ?T) auto
      have 1: "distinct (map pay_pk tbl')" using d mp by simp
      have 2: "\<forall>p \<in> set tbl'. pay_pk p \<noteq> None \<and> 0 < amount p"
        using pos am upd by auto
      have tot: "get_total_paid_for_enrollment tbl' k =
         sum_list (map amount (filter (\<lambda>p. pay_enrollment p = Some k \<and> pay_pk p \<noteq> pay_pk s) ?T)) +
         (if pay_enrollment s = Some k then amount s else 0)" for k
        unfolding upd using total_replace [OF d upd(2)] by simp
      have 3: "get_total_paid_for_enrollment tbl' k \<le> price c"
        if "get_enrollment (enrollments db) k = Some e" "get_course (courses db) (course e) = Some c"
        for k e c
      proof (cases "k = k0")
        case True
        with that e0 c0 have "c = c0" by simp
        with tot [of k0] bound k0 True show ?thesis by simp
      next
        case False
        with tot [of k] k0 have "get_total_paid_for_enrollment tbl' k =
          sum_list (map amount (filter (\<lambda>p. pay_enrollment p = Some k \<and> pay_pk p \<noteq> pay_pk s) ?T))"
          by simp
        also have "\<dots> \<le> get_total_paid_for_enrollment ?T k"
          by (rule others_le_total [OF pos'])
        also have "\<dots> \<le> price c" by (rule le [OF that])
        finally show ?thesis .
      qed
      from 1 2 3 show ?thesis by blast
    next
      case ins
      have 1: "distinct (map pay_pk tbl')" using d ins by simp
      have 2: "\<forall>p \<in> set tbl'. pay_pk p \<noteq> None \<and> 0 < amount p" using pos am ins by auto
      have 3: "get_total_paid_for_enrollment tbl' k \<le> price c"
        if "get_enrollment (enrollments db) k = Some e" "get_course (courses db) (course e) = Some c"
        for k e c
      proof (cases "k = k0")
        case True
        with that e0 c0 have "c = c0" by simp
        moreover have "get_total_paid_for_enrollment tbl' k0 =
            get_total_paid_for_enrollment ?T k0 + amount s"
          using ins k0 by (simp add: total_append)
        moreover have "sum_list (map amount (filter (\<lambda>p. pay_enrollment p = Some k0 \<and> pay_pk p \<noteq> pay_pk s) ?T))
            = get_total_paid_for_enrollment ?T k0"
          using others_eq_total [of "pay_pk s" ?T k0] ins by simp
        ultimately show ?thesis using bound True by simp
      next
        case False
        then have "get_total_paid_for_enrollment tbl' k = get_total_paid_for_enrollment ?T k"
          using ins k0 by (simp add: total_append)
        with le [OF that] show ?thesis by simp
      qed
      from 1 2 3 show ?thesis by blast
    qed
  qed
  then show ?thesis by (simp add: payments_ok_def)
qed

lemma save_amount_error:
  assumes "pay_enrollment self = Some k" "get_enrollment (enrollments db) k = Some e"
    "get_course (courses db) (course e) = Some c"
    "price c < sum_list (map amount (filter (\<lambda>p. pay_enrollment p = Some k \<and> pay_pk p \<noteq> pay_pk self)
                                   (payments db))) + amount self"
  shows "\<exists>msg. payment_save db today self = (Inl (ValidationError ''amount'' msg), db)"
proof -
  define s1 where "s1 = (if pay_pk self = None \<and>
                   (receipt_number self = None \<or> receipt_number self = Some [])
                then self\<lparr>receipt_number := Some (generate_receipt_number (payments db) today)\<rparr>
                else self)"
  have f: "pay_enrollment s1 = Some k" "pay_pk s1 = pay_pk self" "amount s1 = amount self"
    using assms(1) by (simp_all add: s1_def)
  have "\<exists>msg. payment_clean db today s1 = Inl (ValidationError ''amount'' msg)"
    using assms(2-4) by (simp add: payment_clean_def f Let_def)
  then obtain msg where "payment_clean db today s1 = Inl (ValidationError ''amount'' msg)" ..
  then have "payment_save db today self = (Inl (ValidationError ''amount'' msg), db)"
    unfolding payment_save_def Let_def s1_def [symmetric] by simp
  then show ?thesis ..
qed

lemma save_keeps_ok:
  assumes "payments_ok db"
  shows "payments_ok (snd (payment_save db today self))"
proof -
  define s1 where "s1 = (if pay_pk self = None \<and>
                   (receipt_number self = None \<or> receipt_number self = Some [])
                then self\<lparr>receipt_number := Some (generate_receipt_number (payments db) today)\<rparr>
                else self)"
  have ps: "payment_save db today self =
     (case payment_clean db today s1 of
           Inl e \<Rightarrow> (Inl e, db)
         | Inr _ \<Rightarrow>
             (case payment_store (payments db) s1 of
                Inl e \<Rightarrow> (Inl e, db)
              | Inr (tbl', s2) \<Rightarrow> (Inr s2, db\<lparr>payments := tbl'\<rparr>)))"
    unfolding payment_save_def Let_def s1_def [symmetric] ..
  show ?thesis
  proof (cases "payment_clean db today s1")
    case (Inl e)
    with assms show ?thesis by (simp add: ps)
  next
    case (Inr u)
    show ?thesis
    proof (cases "payment_store (payments db) s1")
      case (Inl e)
      with Inr assms show ?thesis by (simp add: ps)
    next
      case st: (Inr r)
      obtain tbl' s2 where r: "r = (tbl', s2)" by (cases r)
      from store_keeps_ok [OF assms Inr st [unfolded r]]
      show ?thesis by (simp add: ps Inr st r)
    qed
  qed
qed

text \<open>
  C1. Saving a payment keeps the payments in order: after \<open>payment_save\<close>, whether it
  succeeded or raised, the payments of every enrollment still sum to at most the price of
  its course. And a save whose amount, added to the other stored payments of the
  enrollment, exceeds the price raises a validation error on \<open>amount\<close> and returns the
  database unchanged; for a new payment the other payments are all the stored payments of
  the enrollment.
\<close>

theorem payments_never_exceed_price:
  assumes "payments_ok db"
  shows "payments_ok (snd (payment_save db today self)) \<and>
     (pay_enrollment self = Some k \<and> get_enrollment (enrollments db) k = Some e \<and>
      get_course (courses db) (course e) = Some c \<and>
      price c < sum_list (map amount (filter (\<lambda>p. pay_enrollment p = Some k \<and> pay_pk p \<noteq> pay_pk self)
                                   (payments db))) + amount self
      \<longrightarrow> (\<exists>msg. payment_save db today self = (Inl (ValidationError ''amount'' msg), db))) \<and>
     (pay_pk self = None \<and> pay_enrollment self = Some k \<and>
      get_enrollment (enrollments db) k = Some e \<and>
      get_course (courses db) (course e) = Some c \<and>
      price c < get_total_paid_for_enrollment (payments db) k + amount self
      \<longrightarrow> (\<exists>msg. payment_save db today self = (Inl (ValidationError ''amount'' msg), db)))"
proof (intro conjI impI)
  show "payments_ok (snd (payment_save db today self))"
    by (rule save_keeps_ok [OF assms])
next
  assume "pay_enrollment self = Some k \<and> get_enrollment (enrollments db) k = Some e \<and>
      get_course (courses db) (course e) = Some c \<and>
      price c < sum_list (map amount (filter (\<lambda>p. pay_enrollment p = Some k \<and> pay_pk p \<noteq> pay_pk self)
                                   (payments db))) + amount self"
  then show "\<exists>msg. payment_save db today self = (Inl (ValidationError ''amount'' msg), db)"
    using save_amount_error by blast
next
  assume a: "pay_pk self = None \<and> pay_enrollment self = Some k \<and>
      get_enrollment (enrollments db) k = Some e \<and>
      get_course (courses db) (course e) = Some c \<and>
      price c < get_total_paid_for_enrollment (payments db) k + amount self"
  from assms have "None \<notin> set (map pay_pk (payments db))"
    by (auto simp: payments_ok_def)
  from others_eq_total [OF this, of k] a
  have "price c < sum_list (map amount (filter (\<lambda>p. pay_enrollment p = Some k \<and> pay_pk p \<noteq> pay_pk self)
                                   (payments db))) + amount self"
    by simp
  with a show "\<exists>msg. payment_save db today self = (Inl (ValidationError ''amount'' msg), db)"
    using save_amount_error by blast
qed

lemma payments_ok_example: "payments_ok (db_pay [paid_800])"
proof -
  have e: "get_enrollment [running_row] k = Some e \<Longrightarrow> k = 1 \<and> e = running_row" for k e
    by (simp add: get_enrollment_def running_row_def split: if_splits)
  have c: "get_course [\<lparr>course_id = 1, title = ''Python Basics'', price = 100000\<rparr>] j = Some c
      \<Longrightarrow> price c = 100000" for j c
    by (auto simp: get_course_def split: if_splits)
  have t: "get_total_paid_for_enrollment [paid_800] 1 = 80000"
    by code_simp
  show ?thesis
    unfolding payments_ok_def
  proof (intro conjI allI impI)
    show "distinct (map pay_pk (payments (db_pay [paid_800])))" by code_simp
    show "\<forall>p\<in>set (payments (db_pay [paid_800])). pay_pk p \<noteq> None \<and> 0 < amount p" by code_simp
  next
    fix k e c
    assume 1: "get_enrollment (enrollments (db_pay [paid_800])) k = Some e"
      and 2: "get_course (courses (db_pay [paid_800])) (course e) = Some c"
    from 1 have "k = 1" using e by (simp add: db_pay_def)
    moreover from 2 have "price c = 100000" using c by (simp add: db_pay_def)
    ultimately show "get_total_paid_for_enrollment (payments (db_pay [paid_800])) k \<le> price c"
      using t by (simp add: db_pay_def)
  qed
qed

theorem payments_never_exceed_price_witness:
  "payments_ok (db_pay [paid_800]) \<and>
   payments_ok (snd (payment_save (db_pay [paid_800]) (Date 2025 3 31) pay_300)) \<and>
   payment_save (db_pay [paid_800]) (Date 2025 3 31) pay_300 =
     (Inl (ValidationError ''amount''
        ''Total payments ($1100.00) cannot exceed course price ($1000.00).''),
      db_pay [paid_800])"
proof -
  have h: "pay_pk pay_300 = None \<and> pay_enrollment pay_300 = Some 1 \<and>
      get_enrollment (enrollments (db_pay [paid_800])) 1 = Some running_row \<and>
      get_course (courses (db_pay [paid_800])) (course running_row) =
        Some \<lparr>course_id = 1, title = ''Python Basics'', price = 100000\<rparr> \<and>
      price \<lparr>course_id = 1, title = ''Python Basics'', price = 100000\<rparr>
        < get_total_paid_for_enrollment (payments (db_pay [paid_800])) 1 + amount pay_300"
    by code_simp
  note t = payments_never_exceed_price [OF payments_ok_example, of "Date 2025 3 31" pay_300 1
      running_row "\<lparr>course_id = 1, title = ''Python Basics'', price = 100000\<rparr>"]
  from t have 1: "payments_ok (snd (payment_save (db_pay [paid_800]) (Date 2025 3 31) pay_300))"
    by blast
  from t h obtain msg where m: "payment_save (db_pay [paid_800]) (Date 2025 3 31) pay_300 =
      (Inl (ValidationError ''amount'' msg), db_pay [paid_800])"
    by blast
  have "fst (payment_save (db_pay [paid_800]) (Date 2025 3 31) pay_300) =
      Inl (ValidationError ''amount''
        ''Total payments ($1100.00) cannot exceed course price ($1000.00).'')"
    by code_simp
  with m have "payment_save (db_pay [paid_800]) (Date 2025 3 31) pay_300 =
     (Inl (ValidationError ''amount''
        ''Total payments ($1100.00) cannot exceed course price ($1000.00).''),
      db_pay [paid_800])"
    by simp
  with 1 payments_ok_example show ?thesis by blast
qed

text \<open>
  C2, as stated, fails: year and month of the receipt number are those of the day of the
  save, not of the payment date. A payment dated 31 March 2025 and saved on 2 April 2025,
  the first payment on record, receives \<open>RCP-202504-00001\<close>; by its payment date it would
  be \<open>RCP-202503-00001\<close>.
\<close>

theorem receipt_number_counterexample:
  "payments (db_pay []) = [] \<and> payment_date march_payment = Date 2025 3 31 \<and>
   fst (payment_save (db_pay []) (Date 2025 4 2) march_payment) =
     Inr (march_payment\<lparr>pay_pk := Some 1, receipt_number := Some ''RCP-202504-00001''\<rparr>) \<and>
   generate_receipt_number (payments (db_pay [])) (payment_date march_payment) =
     ''RCP-202503-00001''"
  by code_simp

text \<open>
  C2, amended. A new payment that carries no receipt number and is saved receives
  \<open>RCP-{year}{month:02d}-{seq:05d}\<close>, where year and month are those of the current date
  at the save and \<open>seq\<close> is one plus the number of stored payments whose payment date lies
  in that current year and month.
\<close>

theorem receipt_number_of_new_payment:
  assumes "pay_pk self = None"
    and "receipt_number self = None \<or> receipt_number self = Some []"
    and "payment_save db today self = (Inr saved, db')"
  shows "receipt_number saved =
     Some (''RCP-'' @ dec_str (year today) @ zfill 2 (dec_str (month today)) @ ''-'' @
           zfill 5 (dec_str (length (filter (\<lambda>p. year (payment_date p) = year today \<and>
                                                month (payment_date p) = month today)
                                       (payments db)) + 1)))"
proof -
  define s1 where "s1 = self\<lparr>receipt_number := Some (generate_receipt_number (payments db) today)\<rparr>"
  have ps: "payment_save db today self =
     (case payment_clean db today s1 of
           Inl e \<Rightarrow> (Inl e, db)
         | Inr _ \<Rightarrow>
             (case payment_store (payments db) s1 of
                Inl e \<Rightarrow> (Inl e, db)
              | Inr (tbl', s2) \<Rightarrow> (Inr s2, db\<lparr>payments := tbl'\<rparr>)))"
    using assms(1,2) unfolding payment_save_def Let_def s1_def by auto
  from assms(3) obtain tbl' where st: "payment_store (payments db) s1 = Inr (tbl', saved)"
    unfolding ps by (auto split: sum.splits prod.splits)
  from payment_store_cases [OF st] have "receipt_number saved = receipt_number s1"
    by auto
  then show ?thesis
    by (simp add: s1_def generate_receipt_number_def)
qed

theorem receipt_number_of_new_payment_witness:
  "pay_pk march_payment = None \<and> receipt_number march_payment = None \<and>
   payment_save (db_pay []) (Date 2025 3 31) march_payment =
     (Inr (march_payment\<lparr>pay_pk := Some 1, receipt_number := Some ''RCP-202503-00001''\<rparr>),
      db_pay [march_payment\<lparr>pay_pk := Some 1, receipt_number := Some ''RCP-202503-00001''\<rparr>]) \<and>
   receipt_number (march_payment\<lparr>pay_pk := Some 1, receipt_number := Some ''RCP-202503-00001''\<rparr>) =
     Some (''RCP-'' @ dec_str 2025 @ zfill 2 (dec_str 3) @ ''-'' @ zfill 5 (dec_str 1))"
proof -
  have h1: "pay_pk march_payment = None" by code_simp
  have h2: "receipt_number march_payment = None" by code_simp
  then have h2': "receipt_number march_payment = None \<or> receipt_number march_payment = Some []" ..
  have h3: "payment_save (db_pay []) (Date 2025 3 31) march_payment =
     (Inr (march_payment\<lparr>pay_pk := Some 1, receipt_number := Some ''RCP-202503-00001''\<rparr>),
      db_pay [march_payment\<lparr>pay_pk := Some 1, receipt_number := Some ''RCP-202503-00001''\<rparr>])"
    by code_simp
  have n: "length (filter (\<lambda>p. year (payment_date p) = year (Date 2025 3 31) \<and>
                 month (payment_date p) = month (Date 2025 3 31)) (payments (db_pay []))) + 1 = 1"
    by code_simp
  from receipt_number_of_new_payment [OF h1 h2' h3]
  have "receipt_number (march_payment\<lparr>pay_pk := Some 1, receipt_number := Some ''RCP-202503-00001''\<rparr>) =
     Some (''RCP-'' @ dec_str 2025 @ zfill 2 (dec_str 3) @ ''-'' @ zfill 5 (dec_str 1))"
    unfolding n by simp
  with h1 h2 h3 show ?thesis by blast
qed

subsection \<open>Prerequisites\<close>

lemma loop_accepts:
  "prerequisites_loop m db c value = Inr () \<longleftrightarrow>
     (\<forall>p \<in> set value. course_id p \<noteq> course_id c \<and> \<not> is_prerequisite_for db c p)"
  by (induction "value") auto

lemma loop_result_accepts:
  "(case prerequisites_loop m db c value of Inl e \<Rightarrow> Inl e | Inr u \<Rightarrow> Inr value) = Inr value \<longleftrightarrow>
     (\<forall>p \<in> set value. course_id p \<noteq> course_id c \<and> \<not> is_prerequisite_for db c p)"
proof (cases "prerequisites_loop m db c value")
  case (Inl e)
  then have "prerequisites_loop m db c value \<noteq> Inr ()" by simp
  with loop_accepts [of m db c "value"] Inl show ?thesis by simp
next
  case (Inr u)
  then have "prerequisites_loop m db c value = Inr ()" by simp
  with loop_accepts [of m db c "value"] Inr show ?thesis by simp
qed

text \<open>
  C8, as stated, fails in one point: the error for a course listed as its own prerequisite
  is the fixed message "A course cannot be its own prerequisite.", which names no course.
\<close>

theorem self_prerequisite_counterexample:
  "create_update_validate_prerequisites db_courses (Some python_basics) [python_basics] =
     Inl (ValidationError [] ''A course cannot be its own prerequisite.'') \<and>
   course_validate_prerequisites db_courses (Some python_basics) [python_basics] =
     Inl (ValidationError [] ''A course cannot be its own prerequisite.'') \<and>
   \<not> sublist (title python_basics) ''A course cannot be its own prerequisite.''"
  by code_simp

lemma loop_first_offending:
  assumes "\<forall>q \<in> set pre. course_id q \<noteq> course_id c \<and> \<not> is_prerequisite_for db c q"
  shows "prerequisites_loop m db c (pre @ p # rest) =
     (if course_id p = course_id c
      then Inl (ValidationError [] ''A course cannot be its own prerequisite.'')
      else if is_prerequisite_for db c p
      then Inl (ValidationError [] (m c p))
      else prerequisites_loop m db c rest)"
  using assms by (induction pre) auto

lemma title_in_circular_messages:
  "sublist (title p) (''Circular dependency detected with '' @ quote @ title p @ quote @ ''.'')"
  "sublist (title p) (''Circular dependency: '' @ quote @ title p @ quote @ '' already has '' @
       quote @ title c @ quote @ '' as a prerequisite.'')"
proof -
  show "sublist (title p) (''Circular dependency detected with '' @ quote @ title p @ quote @ ''.'')"
    using sublist_appendI [of "title p" "''Circular dependency detected with '' @ quote"
          "quote @ ''.''"] by simp
  show "sublist (title p) (''Circular dependency: '' @ quote @ title p @ quote @ '' already has '' @
       quote @ title c @ quote @ '' as a prerequisite.'')"
    using sublist_appendI [of "title p" "''Circular dependency: '' @ quote"
          "quote @ '' already has '' @ quote @ title c @ quote @ '' as a prerequisite.''"]
    by simp
qed

text \<open>
  C8, amended. On create (no instance) both serializers accept every list of
  prerequisites; neither condition can hold for a course that is not stored yet. On update
  a list is accepted exactly when no entry is the course itself and no entry already has
  the course among its own prerequisites. Otherwise validation fails, and the first
  offending entry \<open>p\<close> of the list (every entry of \<open>pre\<close> before it is in order) decides
  the validation error: when \<open>p\<close> is the course itself, the fixed message "A course cannot
  be its own prerequisite.", which names no course; when \<open>p\<close> already requires the course,
  the circular-dependency message of the serializer, which contains the title of \<open>p\<close>.
\<close>

theorem prerequisite_validation:
  "create_update_validate_prerequisites db None value = Inr value \<and>
   course_validate_prerequisites db None value = Inr value \<and>
   (create_update_validate_prerequisites db (Some c) value = Inr value \<longleftrightarrow>
      (\<forall>p \<in> set value. course_id p \<noteq> course_id c \<and> \<not> is_prerequisite_for db c p)) \<and>
   (course_validate_prerequisites db (Some c) value = Inr value \<longleftrightarrow>
      (\<forall>p \<in> set value. course_id p \<noteq> course_id c \<and> \<not> is_prerequisite_for db c p)) \<and>
   (value = pre @ p # rest \<and>
    (\<forall>q \<in> set pre. course_id q \<noteq> course_id c \<and> \<not> is_prerequisite_for db c q) \<longrightarrow>
      (course_id p = course_id c \<longrightarrow>
         create_update_validate_prerequisites db (Some c) value =
           Inl (ValidationError [] ''A course cannot be its own prerequisite.'') \<and>
         course_validate_prerequisites db (Some c) value =
           Inl (ValidationError [] ''A course cannot be its own prerequisite.'')) \<and>
      (course_id p \<noteq> course_id c \<and> is_prerequisite_for db c p \<longrightarrow>
         create_update_validate_prerequisites db (Some c) value =
           Inl (ValidationError []
                  (''Circular dependency detected with '' @ quote @ title p @ quote @ ''.'')) \<and>
         course_validate_prerequisites db (Some c) value =
           Inl (ValidationError []
                  (''Circular dependency: '' @ quote @ title p @ quote @ '' already has '' @
                   quote @ title c @ quote @ '' as a prerequisite.'')) \<and>
         sublist (title p)
           (''Circular dependency detected with '' @ quote @ title p @ quote @ ''.'') \<and>
         sublist (title p)
           (''Circular dependency: '' @ quote @ title p @ quote @ '' already has '' @
            quote @ title c @ quote @ '' as a prerequisite.''))) \<and>
   ((\<exists>p \<in> set value. course_id p = course_id c \<or> is_prerequisite_for db c p) \<longrightarrow>
      (\<exists>pre p rest. value = pre @ p # rest \<and>
          (\<forall>q \<in> set pre. course_id q \<noteq> course_id c \<and> \<not> is_prerequisite_for db c q) \<and>
          (course_id p = course_id c \<or> is_prerequisite_for db c p)) \<and>
      (\<exists>msg1 msg2.
          create_update_validate_prerequisites db (Some c) value = Inl (ValidationError [] msg1) \<and>
          course_validate_prerequisites db (Some c) value = Inl (ValidationError [] msg2)))"
proof (intro conjI impI)
  show "create_update_validate_prerequisites db None value = Inr value"
    by (simp add: create_update_validate_prerequisites_def)
  show "course_validate_prerequisites db None value = Inr value"
    by (simp add: course_validate_prerequisites_def)
  show "create_update_validate_prerequisites db (Some c) value = Inr value \<longleftrightarrow>
      (\<forall>p \<in> set value. course_id p \<noteq> course_id c \<and> \<not> is_prerequisite_for db c p)"
    unfolding create_update_validate_prerequisites_def by (simp add: loop_result_accepts)
  show "course_validate_prerequisites db (Some c) value = Inr value \<longleftrightarrow>
      (\<forall>p \<in> set value. course_id p \<noteq> course_id c \<and> \<not> is_prerequisite_for db c p)"
    unfolding course_validate_prerequisites_def by (simp add: loop_result_accepts)
next
  assume a: "value = pre @ p # rest \<and>
    (\<forall>q \<in> set pre. course_id q \<noteq> course_id c \<and> \<not> is_prerequisite_for db c q)"
  assume s: "course_id p = course_id c"
  from a have ok: "\<forall>q \<in> set pre. course_id q \<noteq> course_id c \<and> \<not> is_prerequisite_for db c q"
    and v: "value = pre @ p # rest" by simp_all
  show "create_update_validate_prerequisites db (Some c) value =
           Inl (ValidationError [] ''A course cannot be its own prerequisite.'')"
    unfolding create_update_validate_prerequisites_def v
    by (simp add: loop_first_offending [OF ok] s)
  show "course_validate_prerequisites db (Some c) value =
           Inl (ValidationError [] ''A course cannot be its own prerequisite.'')"
    unfolding course_validate_prerequisites_def v
    by (simp add: loop_first_offending [OF ok] s)
next
  assume a: "value = pre @ p # rest \<and>
    (\<forall>q \<in> set pre. course_id q \<noteq> course_id c \<and> \<not> is_prerequisite_for db c q)"
  assume s: "course_id p \<noteq> course_id c \<and> is_prerequisite_for db c p"
  from a have ok: "\<forall>q \<in> set pre. course_id q \<noteq> course_id c \<and> \<not> is_prerequisite_for db c q"
    and v: "value = pre @ p # rest" by simp_all
  show "create_update_validate_prerequisites db (Some c) value =
           Inl (ValidationError []
                  (''Circular dependency detected with '' @ quote @ title p @ quote @ ''.''))"
    unfolding create_update_validate_prerequisites_def v
    by (simp add: loop_first_offending [OF ok] s)
  show "course_validate_prerequisites db (Some c) value =
           Inl (ValidationError []
                  (''Circular dependency: '' @ quote @ title p @ quote @ '' already has '' @
                   quote @ title c @ quote @ '' as a prerequisite.''))"
    unfolding course_validate_prerequisites_def v
    by (simp add: loop_first_offending [OF ok] s)
  show "sublist (title p)
           (''Circular dependency detected with '' @ quote @ title p @ quote @ ''.'')"
    by (rule title_in_circular_messages)
  show "sublist (title p)
           (''Circular dependency: '' @ quote @ title p @ quote @ '' already has '' @
            quote @ title c @ quote @ '' as a prerequisite.'')"
    by (rule title_in_circular_messages)
next
  assume a: "\<exists>p \<in> set value. course_id p = course_id c \<or> is_prerequisite_for db c p"
  from split_list_first_prop [OF a]
  obtain pre p rest where v: "value = pre @ p # rest"
    and off: "course_id p = course_id c \<or> is_prerequisite_for db c p"
    and ok: "\<forall>q \<in> set pre. \<not> (course_id q = course_id c \<or> is_prerequisite_for db c q)"
    by blast
  from ok have ok': "\<forall>q \<in> set pre. course_id q \<noteq> course_id c \<and> \<not> is_prerequisite_for db c q"
    by blast
  from v off ok' show "\<exists>pre p rest. value = pre @ p # rest \<and>
          (\<forall>q \<in> set pre. course_id q \<noteq> course_id c \<and> \<not> is_prerequisite_for db c q) \<and>
          (course_id p = course_id c \<or> is_prerequisite_for db c p)"
    by blast
  have "\<exists>msg. prerequisites_loop m db c value = Inl (ValidationError [] msg)" for m
    unfolding v using off by (auto simp: loop_first_offending [OF ok'])
  then show "\<exists>msg1 msg2.
          create_update_validate_prerequisites db (Some c) value = Inl (ValidationError [] msg1) \<and>
          course_validate_prerequisites db (Some c) value = Inl (ValidationError [] msg2)"
    unfolding create_update_validate_prerequisites_def course_validate_prerequisites_def
    by (metis (no_types, lifting) option.simps(5) sum.simps(5))
qed

theorem prerequisite_validation_witness:
  "create_update_validate_prerequisites db_courses (Some python_basics)
       [web_basics, python_advanced, python_basics] =
     Inl (ValidationError [] (''Circular dependency detected with '' @ quote @
            ''Python Advanced'' @ quote @ ''.'')) \<and>
   create_update_validate_prerequisites db_courses (Some python_basics)
       [web_basics, python_basics, python_advanced] =
     Inl (ValidationError [] ''A course cannot be its own prerequisite.'') \<and>
   create_update_validate_prerequisites db_courses (Some python_advanced) [python_basics] =
     Inr [python_basics]"
proof -
  have h: "\<forall>p \<in> set [python_basics].
      course_id p \<noteq> course_id python_advanced \<and> \<not> is_prerequisite_for db_courses python_advanced p"
    by code_simp
  from prerequisite_validation [of db_courses "[python_basics]" python_advanced] h
  have 1: "create_update_validate_prerequisites db_courses (Some python_advanced) [python_basics] =
     Inr [python_basics]" by blast
  have pre: "\<forall>q \<in> set [web_basics]. course_id q \<noteq> course_id python_basics \<and>
      \<not> is_prerequisite_for db_courses python_basics q"
    by code_simp
  have d2: "[web_basics, python_advanced, python_basics] = [web_basics] @ python_advanced # [python_basics]"
    by simp
  have o2: "course_id python_advanced \<noteq> course_id python_basics \<and>
      is_prerequisite_for db_courses python_basics python_advanced"
    by code_simp
  have t2: "title python_advanced = ''Python Advanced''" by code_simp
  from prerequisite_validation [of db_courses "[web_basics, python_advanced, python_basics]"
      python_basics "[web_basics]" python_advanced "[python_basics]"] d2 pre o2
  have 2: "create_update_validate_prerequisites db_courses (Some python_basics)
       [web_basics, python_advanced, python_basics] =
     Inl (ValidationError [] (''Circular dependency detected with '' @ quote @
            title python_advanced @ quote @ ''.''))"
    by blast
  have d3: "[web_basics, python_basics, python_advanced] = [web_basics] @ python_basics # [python_advanced]"
    by simp
  from prerequisite_validation [of db_courses "[web_basics, python_basics, python_advanced]"
      python_basics "[web_basics]" python_basics "[python_advanced]"] d3 pre
  have 3: "create_update_validate_prerequisites db_courses (Some python_basics)
       [web_basics, python_basics, python_advanced] =
     Inl (ValidationError [] ''A course cannot be its own prerequisite.'')"
    by blast
  from 1 2 3 show ?thesis unfolding t2 by blast
qed

subsection \<open>Bulk validation of payments\<close>

text \<open>
  C9. \<open>bulk_payment_validation\<close> is not total: a record without \<open>enrollment_id\<close> gets its
  "missing required field" entries and then raises \<open>KeyError\<close> at
  \<open>payment_data['enrollment_id']\<close>; a record of an existing enrollment without \<open>amount\<close>
  raises \<open>KeyError\<close> at \<open>payment_data['amount']\<close>. No pair is returned.
\<close>

theorem bulk_payment_validation_raises:
  "bulk_payment_validation py_int py_decimal db
     [[(''amount'', PyInt 10), (''payment_method'', PyStr ''CASH'')]] =
     Inl (KeyError ''enrollment_id'') \<and>
   bulk_payment_validation py_int py_decimal (db_pay [])
     [[(''enrollment_id'', PyInt 1), (''payment_method'', PyStr ''CASH'')]] =
     Inl (KeyError ''amount'')"
proof
  show "bulk_payment_validation py_int py_decimal db
     [[(''amount'', PyInt 10), (''payment_method'', PyStr ''CASH'')]] =
     Inl (KeyError ''enrollment_id'')"
    by (simp add: bulk_payment_validation_def)
  show "bulk_payment_validation py_int py_decimal (db_pay [])
     [[(''enrollment_id'', PyInt 1), (''payment_method'', PyStr ''CASH'')]] =
     Inl (KeyError ''amount'')"
    by code_simp
qed

subsection \<open>Payment plan\<close>

text \<open>
  The plan for a price of 1000.00 in 18 installments, operation by operation: the
  installment, the running totals of \<open>sum\<close>, the difference, the last installment.
\<close>

lemma installment_amount_18:
  "dec_div_int (100000, -2) 18 = (5555555555555555555555555556, -26)"
  by code_simp

lemma plan_total_1:
  "dec_add (0, 0) (5555555555555555555555555556, -26) =
   (5555555555555555555555555556, -26)"
  by code_simp

lemma plan_total_2:
  "dec_add (5555555555555555555555555556, -26) (5555555555555555555555555556, -26) =
   (1111111111111111111111111111, -25)"
  by code_simp

lemma plan_total_3:
  "dec_add (1111111111111111111111111111, -25) (5555555555555555555555555556, -26) =
   (1666666666666666666666666667, -25)"
  by code_simp

lemma plan_total_4:
  "dec_add (1666666666666666666666666667, -25) (5555555555555555555555555556, -26) =
   (2222222222222222222222222223, -25)"
  by code_simp

lemma plan_total_5:
  "dec_add (2222222222222222222222222223, -25) (5555555555555555555555555556, -26) =
   (2777777777777777777777777779, -25)"
  by code_simp

lemma plan_total_6:
  "dec_add (2777777777777777777777777779, -25) (5555555555555555555555555556, -26) =
   (3333333333333333333333333335, -25)"
  by code_simp

lemma plan_total_7:
  "dec_add (3333333333333333333333333335, -25) (5555555555555555555555555556, -26) =
   (3888888888888888888888888891, -25)"
  by code_simp

lemma plan_total_8:
  "dec_add (3888888888888888888888888891, -25) (5555555555555555555555555556, -26) =
   (4444444444444444444444444447, -25)"
  by code_simp

lemma plan_total_9:
  "dec_add (4444444444444444444444444447, -25) (5555555555555555555555555556, -26) =
   (5000000000000000000000000003, -25)"
  by code_simp

lemma plan_total_10:
  "dec_add (5000000000000000000000000003, -25) (5555555555555555555555555556, -26) =
   (5555555555555555555555555559, -25)"
  by code_simp

lemma plan_total_11:
  "dec_add (5555555555555555555555555559, -25) (5555555555555555555555555556, -26) =
   (6111111111111111111111111115, -25)"
  by code_simp

lemma plan_total_12:
  "dec_add (6111111111111111111111111115, -25) (5555555555555555555555555556, -26) =
   (6666666666666666666666666671, -25)"
  by code_simp

lemma plan_total_13:
  "dec_add (6666666666666666666666666671, -25) (5555555555555555555555555556, -26) =
   (7222222222222222222222222227, -25)"
  by code_simp

lemma plan_total_14:
  "dec_add (7222222222222222222222222227, -25) (5555555555555555555555555556, -26) =
   (7777777777777777777777777783, -25)"
  by code_simp

lemma plan_total_15:
  "dec_add (7777777777777777777777777783, -25) (5555555555555555555555555556, -26) =
   (8333333333333333333333333339, -25)"
  by code_simp

lemma plan_total_16:
  "dec_add (8333333333333333333333333339, -25) (5555555555555555555555555556, -26) =
   (8888888888888888888888888895, -25)"
  by code_simp

lemma plan_total_17:
  "dec_add (8888888888888888888888888895, -25) (5555555555555555555555555556, -26) =
   (9444444444444444444444444451, -25)"
  by code_simp

lemma plan_total_18:
  "dec_add (9444444444444444444444444451, -25) (5555555555555555555555555556, -26) =
   (1000000000000000000000000001, -24)"
  by code_simp

lemmas plan_total = plan_total_1 plan_total_2 plan_total_3 plan_total_4 plan_total_5 plan_total_6 plan_total_7 plan_total_8 plan_total_9 plan_total_10 plan_total_11 plan_total_12 plan_total_13 plan_total_14 plan_total_15 plan_total_16 plan_total_17 plan_total_18

lemma total_calculated_18:
  "dec_sum (replicate 18 (5555555555555555555555555556, -26)) =
   (1000000000000000000000000001, -24)"
  by (simp add: dec_sum_def eval_nat_numeral plan_total)

lemma difference_18:
  "dec_sub (100000, -2) (1000000000000000000000000001, -24) = (-1, -24)"
  by code_simp

lemma last_installment_18:
  "dec_add (5555555555555555555555555556, -26) (-1, -24) =
   (5555555555555555555555555456, -26)"
  by code_simp

lemma adjusted_total_18:
  "dec_add (9444444444444444444444444451, -25) (5555555555555555555555555456, -26) =
   (9999999999999999999999999997, -25)"
  by code_simp

lemma plan_18:
  "calculate_payment_plan (100000, -2) 18 =
   replicate 17 (5555555555555555555555555556, -26) @ [(5555555555555555555555555456, -26)]"
  by (simp add: calculate_payment_plan_def installment_amount_18 total_calculated_18 difference_18
      last_installment_18 Let_def)
    (simp add: eval_nat_numeral)

lemma adjusted_sum_18:
  "dec_sum (replicate 17 (5555555555555555555555555556, -26) @
            [(5555555555555555555555555456, -26)]) =
   (9999999999999999999999999997, -25)"
  by (simp add: dec_sum_def eval_nat_numeral plan_total adjusted_total_18)

lemma exact_sum_18:
  "sum_list (map dec_value (replicate 17 (5555555555555555555555555556, -26) @
            [(5555555555555555555555555456, -26)])) =
   dec_value (100000, -2) - 23 / 25000000000000000000000000"
  by (simp add: sum_list_replicate dec_value_def)

text \<open>
  C10. For a price of 1000.00 and 18 installments the plan has 18 entries, the first 17
  equal, and its sum is not the price: \<open>sum\<close> of the plan is
  999.9999999999999999999999997, which \<open>==\<close> tells from 1000.00, and the exact sum of
  the 18 amounts is below the price by 0.00000000000000000000000092. The total of the
  equal installments and the corrected last installment are themselves rounded to 28
  digits.
\<close>

theorem payment_plan_sum_differs:
  "length (calculate_payment_plan (100000, -2) 18) = 18 \<and>
   calculate_payment_plan (100000, -2) 18 =
     replicate 17 (5555555555555555555555555556, -26) @ [(5555555555555555555555555456, -26)] \<and>
   dec_sum (calculate_payment_plan (100000, -2) 18) = (9999999999999999999999999997, -25) \<and>
   \<not> dec_eq (dec_sum (calculate_payment_plan (100000, -2) 18)) (100000, -2) \<and>
   sum_list (map dec_value (calculate_payment_plan (100000, -2) 18)) =
     dec_value (100000, -2) - 23 / 25000000000000000000000000"
proof (intro conjI)
  show "length (calculate_payment_plan (100000, -2) 18) = 18"
    unfolding plan_18 by simp
  show "calculate_payment_plan (100000, -2) 18 =
     replicate 17 (5555555555555555555555555556, -26) @ [(5555555555555555555555555456, -26)]"
    by (rule plan_18)
  show "dec_sum (calculate_payment_plan (100000, -2) 18) = (9999999999999999999999999997, -25)"
    unfolding plan_18 by (rule adjusted_sum_18)
  show "\<not> dec_eq (dec_sum (calculate_payment_plan (100000, -2) 18)) (100000, -2)"
    unfolding plan_18 adjusted_sum_18 by (simp add: dec_eq_def)
  show "sum_list (map dec_value (calculate_payment_plan (100000, -2) 18)) =
     dec_value (100000, -2) - 23 / 25000000000000000000000000"
    unfolding plan_18 by (rule exact_sum_18)
qed

end
